theory Spec2Isabelle
  imports Complex_Main "HOL-Library.AList"
begin

section \<open>Credential CRUD routes (core/framework/server/routes\_credentials.py)\<close>

text \<open>
  The module holds five aiohttp handlers. Each reads a request, calls methods of a
  \<^verbatim>\<open>CredentialStore\<close> (and, for check-agent, of \<^verbatim>\<open>CredentialSetupSession\<close>)
  and builds a JSON response. The store and the session class are declared outside the
  module, so they are parameters of the model: a record of operations over a store state
  \<open>'s\<close>, each of which returns a value or raises and leaves a successor state.
\<close>

subsection \<open>Python values\<close>

text \<open>
  The values that \<^verbatim>\<open>json.loads\<close> produces and \<^verbatim>\<open>json.dumps\<close> accepts. An object is
  a Python dict: an association list in insertion order whose keys are distinct. A float
  is the real number it denotes; the handlers only test it against zero and copy it.
\<close>

datatype json =
    JNull
  | JBool bool
  | JInt int
  | JFloat real
  | JStr string
  | JList "json list"
  | JObject "(string \<times> json) list"

text \<open>
  Exceptions deriving from \<^verbatim>\<open>Exception\<close>, with the class name and \<^verbatim>\<open>str(e)\<close>. Signals
  that derive from \<^verbatim>\<open>BaseException\<close> only (interrupts, cancellation) are not
  part of the model.
\<close>

datatype exn = Exc (exc_class: string) (exc_str: string)

text \<open>A call with effects on a state \<open>'s\<close>: it returns or raises, and leaves a state.\<close>

type_synonym ('a, 's) eff = "'s \<Rightarrow> (exn + 'a) \<times> 's"

text \<open>\<^verbatim>\<open>bool(v)\<close>, the test behind \<^verbatim>\<open>not v\<close> and \<^verbatim>\<open>a or b\<close>.\<close>

fun truthy :: "json \<Rightarrow> bool" where
  "truthy JNull = False"
| "truthy (JBool b) = b"
| "truthy (JInt i) = (i \<noteq> 0)"
| "truthy (JFloat f) = (f \<noteq> 0)"
| "truthy (JStr s) = (s \<noteq> [])"
| "truthy (JList xs) = (xs \<noteq> [])"
| "truthy (JObject kvs) = (kvs \<noteq> [])"

text \<open>\<^verbatim>\<open>isinstance(v, dict)\<close>.\<close>

fun is_dict :: "json \<Rightarrow> bool" where
  "is_dict (JObject kvs) = True"
| "is_dict v = False"

text \<open>\<^verbatim>\<open>type(v).__name__\<close>, as it appears in the message of an AttributeError.\<close>

fun type_name :: "json \<Rightarrow> string" where
  "type_name JNull = ''NoneType''"
| "type_name (JBool b) = ''bool''"
| "type_name (JInt i) = ''int''"
| "type_name (JFloat f) = ''float''"
| "type_name (JStr s) = ''str''"
| "type_name (JList xs) = ''list''"
| "type_name (JObject kvs) = ''dict''"

definition AttributeError :: "json \<Rightarrow> string \<Rightarrow> exn" where
  "AttributeError v attr =
     Exc ''AttributeError''
       ([CHR 0x27] @ type_name v @ [CHR 0x27] @ '' object has no attribute '' @
        [CHR 0x27] @ attr @ [CHR 0x27])"

definition KeyError :: "string \<Rightarrow> exn" where
  "KeyError k = Exc ''KeyError'' ([CHR 0x27] @ k @ [CHR 0x27])"

text \<open>\<^verbatim>\<open>v.get(k)\<close>: only a dict has the method; a missing key gives None.\<close>

fun py_get :: "json \<Rightarrow> string \<Rightarrow> exn + json" where
  "py_get (JObject kvs) k = Inr (case map_of kvs k of None \<Rightarrow> JNull | Some v \<Rightarrow> v)"
| "py_get v k = Inl (AttributeError v ''get'')"

text \<open>\<^verbatim>\<open>v.items()\<close>.\<close>

fun py_items :: "json \<Rightarrow> exn + (string \<times> json) list" where
  "py_items (JObject kvs) = Inr kvs"
| "py_items v = Inl (AttributeError v ''items'')"

subsection \<open>The credential model and the store interface\<close>

text \<open>
  \<^verbatim>\<open>SecretStr(v)\<close> stores the value it is given. \<^verbatim>\<open>CredentialKey\<close> and
  \<^verbatim>\<open>CredentialObject\<close> are the data classes of \<^verbatim>\<open>framework.credentials.models\<close>, with
  the fields this module reads or sets. The credential type and the timestamps are
  abstract (\<open>'ct\<close>, \<open>'dt\<close>); the module sees them through \<^verbatim>\<open>str\<close> and
  \<^verbatim>\<open>isoformat\<close> only. The id has the type of whatever the request body carried.
\<close>

datatype secret = SecretStr json

record CredentialKey =
  name :: string
  value' :: secret

record ('ct, 'dt) CredentialObject =
  id' :: json
  credential_type :: 'ct
  keys :: "(string \<times> CredentialKey) list"
  created_at :: "'dt option"
  updated_at :: "'dt option"

text \<open>\<^verbatim>\<open>str(cred.credential_type)\<close> and \<^verbatim>\<open>datetime.isoformat()\<close>, declared elsewhere.\<close>

record ('ct, 'dt) externals =
  str_credential_type :: "'ct \<Rightarrow> string"
  isoformat :: "'dt \<Rightarrow> string"

text \<open>
  The constructors of the two model classes. They validate their arguments and raise when
  they reject them; an object they return holds the arguments as given. What they reject
  is declared with the classes, outside this module: \<open>check_key k v\<close> is the exception, if
  any, of \<^verbatim>\<open>CredentialKey(name=k, value=v)\<close>, \<open>check_object i ks\<close> that of
  \<^verbatim>\<open>CredentialObject(id=i, keys=ks)\<close>, and \<open>defaults\<close> carries the fields that this
  call leaves to the defaults of the class.
\<close>

record ('ct, 'dt) models =
  defaults :: "('ct, 'dt) CredentialObject"
  check_key :: "string \<Rightarrow> secret \<Rightarrow> exn option"
  check_object :: "json \<Rightarrow> (string \<times> CredentialKey) list \<Rightarrow> exn option"

text \<open>
  The methods of \<^verbatim>\<open>CredentialStore\<close> that the handlers call. The second argument of
  \<open>get_credential\<close> is \<^verbatim>\<open>refresh_if_needed\<close>. A \<^verbatim>\<open>CredentialObject\<close> is truthy, so
  \<^verbatim>\<open>if cred\<close> and \<^verbatim>\<open>cred is None\<close> both test for \<open>None\<close>.
\<close>

record ('ct, 'dt, 's) CredentialStore =
  list_credentials :: "(json list, 's) eff"
  get_credential :: "json \<Rightarrow> bool \<Rightarrow> (('ct, 'dt) CredentialObject option, 's) eff"
  save_credential :: "('ct, 'dt) CredentialObject \<Rightarrow> (unit, 's) eff"
  delete_credential :: "json \<Rightarrow> (json, 's) eff"
  is_available :: "json \<Rightarrow> (json, 's) eff"

text \<open>
  An element of \<^verbatim>\<open>session.missing\<close>, with the ten attributes that check-agent reads,
  and the session itself. \<open>from_agent_path\<close> below stands for
  \<^verbatim>\<open>CredentialSetupSession.from_agent_path(agent_path, missing_only=...)\<close>, import of the
  class included.
\<close>

record MissingCredential =
  credential_name :: json
  credential_id :: json
  env_var :: json
  description :: json
  help_url :: json
  tools :: json
  node_types :: json
  direct_api_key_supported :: json
  aden_supported :: json
  credential_key :: json

record CredentialSetupSession =
  missing :: "MissingCredential list"

type_synonym 's from_agent_path = "json \<Rightarrow> bool \<Rightarrow> (CredentialSetupSession, 's) eff"

subsection \<open>Requests and responses\<close>

text \<open>
  \<open>match_info\<close> holds the path parameters; \<open>json\<close> is the outcome of
  \<^verbatim>\<open>await request.json()\<close>: the parsed body, or the JSONDecodeError of a body that is
  not JSON.
\<close>

record request =
  match_info :: "string \<rightharpoonup> string"
  json :: "exn + json"

record response =
  status :: nat
  body :: json

definition json_response :: "json \<Rightarrow> nat \<Rightarrow> response" where
  "json_response data st = \<lparr>status = st, body = data\<rparr>"

subsection \<open>The handlers\<close>

definition credential_to_dict ::
  "('ct, 'dt) externals \<Rightarrow> ('ct, 'dt) CredentialObject \<Rightarrow> json" where
  "credential_to_dict x cred =
     JObject
       [(''credential_id'', id' cred),
        (''credential_type'', JStr (str_credential_type x (credential_type cred))),
        (''key_names'', JList (map (\<lambda>kv. JStr (fst kv)) (keys cred))),
        (''created_at'',
           (case created_at cred of Some d \<Rightarrow> JStr (isoformat x d) | None \<Rightarrow> JNull)),
        (''updated_at'',
           (case updated_at cred of Some d \<Rightarrow> JStr (isoformat x d) | None \<Rightarrow> JNull))]"

text \<open>The loop of \<open>handle_list_credentials\<close>, with the list it appends to.\<close>

fun list_loop ::
  "('ct, 'dt) externals \<Rightarrow> ('ct, 'dt, 's) CredentialStore \<Rightarrow> json list \<Rightarrow> json list \<Rightarrow>
   (json list, 's) eff" where
  "list_loop x store [] credentials s = (Inr credentials, s)"
| "list_loop x store (cid # cred_ids) credentials s =
     (case get_credential store cid False s of
        (Inl e, s') \<Rightarrow> (Inl e, s')
      | (Inr cred, s') \<Rightarrow>
          list_loop x store cred_ids
            (case cred of
               Some c \<Rightarrow> credentials @ [credential_to_dict x c]
             | None \<Rightarrow> credentials) s')"

definition handle_list_credentials ::
  "('ct, 'dt) externals \<Rightarrow> ('ct, 'dt, 's) CredentialStore \<Rightarrow> request \<Rightarrow> (response, 's) eff" where
  "handle_list_credentials x store request s =
     (case list_credentials store s of
        (Inl e, s') \<Rightarrow> (Inl e, s')
      | (Inr cred_ids, s') \<Rightarrow>
          (case list_loop x store cred_ids [] s' of
             (Inl e, s'') \<Rightarrow> (Inl e, s'')
           | (Inr credentials, s'') \<Rightarrow>
               (Inr (json_response (JObject [(''credentials'', JList credentials)]) 200), s'')))"

definition not_found :: "string \<Rightarrow> json" where
  "not_found credential_id' =
     JObject [(''error'',
       JStr (''Credential '' @ [CHR 0x27] @ credential_id' @ [CHR 0x27] @ '' not found''))]"

definition handle_get_credential ::
  "('ct, 'dt) externals \<Rightarrow> ('ct, 'dt, 's) CredentialStore \<Rightarrow> request \<Rightarrow> (response, 's) eff" where
  "handle_get_credential x store request s =
     (case match_info request ''credential_id'' of
        None \<Rightarrow> (Inl (KeyError ''credential_id''), s)
      | Some credential_id' \<Rightarrow>
          (case get_credential store (JStr credential_id') False s of
             (Inl e, s') \<Rightarrow> (Inl e, s')
           | (Inr None, s') \<Rightarrow> (Inr (json_response (not_found credential_id') 404), s')
           | (Inr (Some cred), s') \<Rightarrow>
               (Inr (json_response (credential_to_dict x cred) 200), s')))"

text \<open>
  The dict comprehension of \<open>handle_save_credential\<close>: for each item in turn the key
  object is built, which may raise, and entered under its name; a name that is already
  there keeps its place and takes the new object.
\<close>

fun secret_keys ::
  "(string \<Rightarrow> secret \<Rightarrow> exn option) \<Rightarrow> (string \<times> json) list \<Rightarrow>
   (string \<times> CredentialKey) list \<Rightarrow> exn + (string \<times> CredentialKey) list" where
  "secret_keys chk [] d = Inr d"
| "secret_keys chk (kv # kvs) d =
     (case chk (fst kv) (SecretStr (snd kv)) of
        Some e \<Rightarrow> Inl e
      | None \<Rightarrow>
          secret_keys chk kvs
            (AList.update (fst kv) \<lparr>name = fst kv, value' = SecretStr (snd kv)\<rparr> d))"

definition handle_save_credential ::
  "('ct, 'dt) models \<Rightarrow> ('ct, 'dt, 's) CredentialStore \<Rightarrow> request \<Rightarrow> (response, 's) eff" where
  "handle_save_credential m store request s =
     (case json request of
        Inl e \<Rightarrow> (Inl e, s)
      | Inr body' \<Rightarrow>
          (case py_get body' ''credential_id'' of
             Inl e \<Rightarrow> (Inl e, s)
           | Inr credential_id' \<Rightarrow>
               (case py_get body' ''keys'' of
                  Inl e \<Rightarrow> (Inl e, s)
                | Inr keys' \<Rightarrow>
                    if \<not> truthy credential_id' \<or> \<not> truthy keys' \<or> \<not> is_dict keys'
                    then (Inr (json_response
                            (JObject [(''error'', JStr ''credential_id and keys are required'')])
                            400), s)
                    else
                      (case py_items keys' of
                         Inl e \<Rightarrow> (Inl e, s)
                       | Inr kvs \<Rightarrow>
                           (case secret_keys (check_key m) kvs [] of
                              Inl e \<Rightarrow> (Inl e, s)
                            | Inr ks \<Rightarrow>
                                (case check_object m credential_id' ks of
                                   Some e \<Rightarrow> (Inl e, s)
                                 | None \<Rightarrow>
                                     (case save_credential store
                                             ((defaults m)\<lparr>id' := credential_id', keys := ks\<rparr>) s of
                                        (Inl e, s') \<Rightarrow> (Inl e, s')
                                      | (Inr u, s') \<Rightarrow>
                                          (Inr (json_response
                                                  (JObject [(''saved'', credential_id')]) 201),
                                           s'))))))))"

definition handle_delete_credential ::
  "('ct, 'dt, 's) CredentialStore \<Rightarrow> request \<Rightarrow> (response, 's) eff" where
  "handle_delete_credential store request s =
     (case match_info request ''credential_id'' of
        None \<Rightarrow> (Inl (KeyError ''credential_id''), s)
      | Some credential_id' \<Rightarrow>
          (case delete_credential store (JStr credential_id') s of
             (Inl e, s') \<Rightarrow> (Inl e, s')
           | (Inr deleted, s') \<Rightarrow>
               if \<not> truthy deleted
               then (Inr (json_response (not_found credential_id') 404), s')
               else (Inr (json_response (JObject [(''deleted'', JBool True)]) 200), s')))"

text \<open>\<^verbatim>\<open>mc.credential_id or mc.credential_name\<close>.\<close>

definition cred_id :: "MissingCredential \<Rightarrow> json" where
  "cred_id mc = (if truthy (credential_id mc) then credential_id mc else credential_name mc)"

text \<open>The dict that check-agent appends for one requirement.\<close>

definition required_entry :: "MissingCredential \<Rightarrow> json \<Rightarrow> json" where
  "required_entry mc available =
     JObject
       [(''credential_name'', credential_name mc),
        (''credential_id'', cred_id mc),
        (''env_var'', env_var mc),
        (''description'', description mc),
        (''help_url'', help_url mc),
        (''tools'', tools mc),
        (''node_types'', node_types mc),
        (''available'', available),
        (''direct_api_key_supported'', direct_api_key_supported mc),
        (''aden_supported'', aden_supported mc),
        (''credential_key'', credential_key mc)]"

fun required_loop ::
  "('ct, 'dt, 's) CredentialStore \<Rightarrow> MissingCredential list \<Rightarrow> json list \<Rightarrow> (json list, 's) eff" where
  "required_loop store [] required s = (Inr required, s)"
| "required_loop store (mc # mcs) required s =
     (case is_available store (cred_id mc) s of
        (Inl e, s') \<Rightarrow> (Inl e, s')
      | (Inr available, s') \<Rightarrow>
          required_loop store mcs (required @ [required_entry mc available]) s')"

text \<open>The body of the \<^verbatim>\<open>try\<close> block of \<open>handle_check_agent\<close>.\<close>

definition check_agent_try ::
  "'s from_agent_path \<Rightarrow> ('ct, 'dt, 's) CredentialStore \<Rightarrow> json \<Rightarrow> (response, 's) eff" where
  "check_agent_try from_agent_path store agent_path s =
     (case from_agent_path agent_path False s of
        (Inl e, s') \<Rightarrow> (Inl e, s')
      | (Inr session, s') \<Rightarrow>
          (case required_loop store (missing session) [] s' of
             (Inl e, s'') \<Rightarrow> (Inl e, s'')
           | (Inr required, s'') \<Rightarrow>
               (Inr (json_response (JObject [(''required'', JList required)]) 200), s'')))"

text \<open>The logging call of the \<^verbatim>\<open>except\<close> branch has no effect on the response.\<close>

definition handle_check_agent ::
  "'s from_agent_path \<Rightarrow> ('ct, 'dt, 's) CredentialStore \<Rightarrow> request \<Rightarrow> (response, 's) eff" where
  "handle_check_agent from_agent_path store request s =
     (case json request of
        Inl e \<Rightarrow> (Inl e, s)
      | Inr body' \<Rightarrow>
          (case py_get body' ''agent_path'' of
             Inl e \<Rightarrow> (Inl e, s)
           | Inr agent_path \<Rightarrow>
               if \<not> truthy agent_path
               then (Inr (json_response (JObject [(''error'', JStr ''agent_path is required'')])
                            400), s)
               else
                 (case check_agent_try from_agent_path store agent_path s of
                    (Inl e, s') \<Rightarrow>
                       (Inr (json_response (JObject [(''error'', JStr (exc_str e))]) 500), s')
                  | (Inr resp, s') \<Rightarrow> (Inr resp, s'))))"

subsection \<open>Descriptions used in the statements\<close>

text \<open>
  Calling \<open>f\<close> on each element of a list in turn, from the state the previous call left:
  the list of the results, or the first exception raised.
\<close>

fun each :: "('a \<Rightarrow> ('b, 's) eff) \<Rightarrow> 'a list \<Rightarrow> ('b list, 's) eff" where
  "each f [] s = (Inr [], s)"
| "each f (a # as) s =
     (case f a s of
        (Inl e, s') \<Rightarrow> (Inl e, s')
      | (Inr b, s') \<Rightarrow>
          (case each f as s' of
             (Inl e, s'') \<Rightarrow> (Inl e, s'')
           | (Inr bs, s'') \<Rightarrow> (Inr (b # bs), s'')))"

text \<open>The credentials among the results of a lookup, in the order of the results.\<close>

fun found :: "'a option list \<Rightarrow> 'a list" where
  "found [] = []"
| "found (None # rs) = found rs"
| "found (Some c # rs) = c # found rs"

text \<open>The value of a field of a JSON object.\<close>

definition field :: "json \<Rightarrow> string \<Rightarrow> json option" where
  "field v k = (case v of JObject kvs \<Rightarrow> map_of kvs k | _ \<Rightarrow> None)"

text \<open>The statuses this module sets.\<close>

definition module_status :: "nat \<Rightarrow> bool" where
  "module_status n \<longleftrightarrow> n = 200 \<or> n = 201 \<or> n = 400 \<or> n = 404 \<or> n = 500"

text \<open>
  A handler that, from the state \<open>s\<close>, returns a response with one of the statuses of the
  module (rather than raising).
\<close>

definition answers :: "(response, 's) eff \<Rightarrow> 's \<Rightarrow> bool" where
  "answers h s = (case fst (h s) of Inl e \<Rightarrow> False | Inr resp \<Rightarrow> module_status (status resp))"

text \<open>
  Two credentials with the same id, type, key names (in the order of the dict) and
  timestamps; the secret values and the rest of each key are free.
\<close>

definition same_metadata ::
  "('ct, 'dt) CredentialObject \<Rightarrow> ('ct, 'dt) CredentialObject \<Rightarrow> bool" where
  "same_metadata c1 c2 \<longleftrightarrow>
     id' c1 = id' c2 \<and> credential_type c1 = credential_type c2 \<and>
     map fst (keys c1) = map fst (keys c2) \<and>
     created_at c1 = created_at c2 \<and> updated_at c1 = updated_at c2"

text \<open>
  Two stores agree on the metadata along a relation \<open>R\<close> of their states: from related
  states, \<open>list_credentials\<close> gives the same ids (or the same exception) and
  \<open>get_credential\<close> without refresh gives credentials with the same metadata (or both
  None, or the same exception), and the states they leave are related again.
\<close>

definition same_outcome ::
  "('a \<Rightarrow> 'b \<Rightarrow> bool) \<Rightarrow> ('s \<Rightarrow> 't \<Rightarrow> bool) \<Rightarrow> (exn + 'a) \<times> 's \<Rightarrow> (exn + 'b) \<times> 't \<Rightarrow> bool" where
  "same_outcome V R p q \<longleftrightarrow> rel_sum (=) V (fst p) (fst q) \<and> R (snd p) (snd q)"

definition agree_on_metadata ::
  "('s \<Rightarrow> 't \<Rightarrow> bool) \<Rightarrow> ('ct, 'dt, 's) CredentialStore \<Rightarrow> ('ct, 'dt, 't) CredentialStore \<Rightarrow> bool" where
  "agree_on_metadata R st1 st2 \<longleftrightarrow>
     (\<forall>s1 s2. R s1 s2 \<longrightarrow>
        same_outcome (=) R (list_credentials st1 s1) (list_credentials st2 s2)) \<and>
     (\<forall>cid s1 s2. R s1 s2 \<longrightarrow>
        same_outcome (rel_option same_metadata) R
          (get_credential st1 cid False s1) (get_credential st2 cid False s2))"

text \<open>
  A store that keeps a log of the calls it receives, on top of any store: the way to say
  which methods a handler calls, and with which arguments.
\<close>

datatype ('ct, 'dt) call =
    ListCredentials
  | GetCredential json bool
  | SaveCredential "('ct, 'dt) CredentialObject"
  | DeleteCredential json
  | IsAvailable json

definition logged :: "('ct, 'dt) call \<Rightarrow> ('a, 's) eff \<Rightarrow> ('a, 's \<times> ('ct, 'dt) call list) eff" where
  "logged c f = (\<lambda>(s, calls). case f s of (r, s') \<Rightarrow> (r, (s', calls @ [c])))"

definition recording ::
  "('ct, 'dt, 's) CredentialStore \<Rightarrow> ('ct, 'dt, 's \<times> ('ct, 'dt) call list) CredentialStore" where
  "recording store =
     \<lparr>list_credentials = logged ListCredentials (list_credentials store),
      get_credential = (\<lambda>cid refresh. logged (GetCredential cid refresh) (get_credential store cid refresh)),
      save_credential = (\<lambda>cred. logged (SaveCredential cred) (save_credential store cred)),
      delete_credential = (\<lambda>cid. logged (DeleteCredential cid) (delete_credential store cid)),
      is_available = (\<lambda>cid. logged (IsAvailable cid) (is_available store cid))\<rparr>"

text \<open>The calls that read metadata without asking for a refresh.\<close>

fun plain_read :: "('ct, 'dt) call \<Rightarrow> bool" where
  "plain_read ListCredentials = True"
| "plain_read (GetCredential cid refresh) = (\<not> refresh)"
| "plain_read c = False"

subsection \<open>Example collaborators\<close>

text \<open>
  A store kept in a dict from id to credential, a session builder that finds two
  requirements and one that fails; types and timestamps are their own strings.
\<close>

definition dict_store ::
  "('ct, 'dt, (json \<times> ('ct, 'dt) CredentialObject) list) CredentialStore" where
  "dict_store =
     \<lparr>list_credentials = (\<lambda>s. (Inr (map fst s), s)),
      get_credential = (\<lambda>cid refresh s. (Inr (map_of s cid), s)),
      save_credential = (\<lambda>cred s. (Inr (), AList.update (id' cred) cred s)),
      delete_credential = (\<lambda>cid s. (Inr (JBool (map_of s cid \<noteq> None)), AList.delete cid s)),
      is_available = (\<lambda>cid s. (Inr (JBool (map_of s cid \<noteq> None)), s))\<rparr>"

definition as_text :: "(string, string) externals" where
  "as_text = \<lparr>str_credential_type = (\<lambda>t. t), isoformat = (\<lambda>d. d)\<rparr>"

definition blank :: "(string, string) CredentialObject" where
  "blank = \<lparr>id' = JNull, credential_type = ''api_key'', keys = [],
            created_at = None, updated_at = None\<rparr>"

definition github :: "string \<Rightarrow> (string, string) CredentialObject" where
  "github token =
     \<lparr>id' = JStr ''github'', credential_type = ''api_key'',
      keys = [(''token'', \<lparr>name = ''token'', value' = SecretStr (JStr token)\<rparr>)],
      created_at = Some ''2025-01-01T00:00:00'', updated_at = None\<rparr>"

text \<open>
  Model classes that check their fields as pydantic does for \<^verbatim>\<open>id: str\<close>: an id that is
  not a string is rejected with a ValidationError; and a credential with two keys, entered
  in the order given.
\<close>

definition str_id_models :: "(string, string) models" where
  "str_id_models =
     \<lparr>defaults = blank,
      check_key = (\<lambda>k v. None),
      check_object = (\<lambda>i ks. case i of
         JStr t \<Rightarrow> None
       | _ \<Rightarrow> Some (Exc ''ValidationError'' ''1 validation error for CredentialObject''))\<rparr>"

definition two_keys :: "string \<Rightarrow> string \<Rightarrow> (string, string) CredentialObject" where
  "two_keys k1 k2 =
     \<lparr>id' = JStr ''aws'', credential_type = ''api_key'',
      keys = [(k1, \<lparr>name = k1, value' = SecretStr (JStr ''s3cr3t'')\<rparr>),
              (k2, \<lparr>name = k2, value' = SecretStr (JStr ''s3cr3t'')\<rparr>)],
      created_at = None, updated_at = None\<rparr>"

definition requirement :: "json \<Rightarrow> json \<Rightarrow> MissingCredential" where
  "requirement nm ident =
     \<lparr>credential_name = nm, credential_id = ident, env_var = JNull, description = JStr [],
      help_url = JNull, tools = JList [], node_types = JList [],
      direct_api_key_supported = JBool True, aden_supported = JBool False,
      credential_key = JStr ''token''\<rparr>"

definition two_requirements :: "'s from_agent_path" where
  "two_requirements agent_path missing_only s =
     (Inr \<lparr>missing =
        (if missing_only then [requirement (JStr ''slack'') JNull]
         else [requirement (JStr ''github_token'') (JStr ''github''),
               requirement (JStr ''slack'') JNull])\<rparr>, s)"

definition no_agent :: "'s from_agent_path" where
  "no_agent agent_path missing_only s = (Inl (Exc ''FileNotFoundError'' ''agent.json not found''), s)"

text \<open>Requests: one with a path parameter and no JSON body, one with a JSON body.\<close>

definition path_request :: "string \<Rightarrow> request" where
  "path_request cid =
     \<lparr>match_info = [''credential_id'' \<mapsto> cid],
      json = Inl (Exc ''JSONDecodeError'' ''Expecting value: line 1 column 1 (char 0)'')\<rparr>"

definition body_request :: "json \<Rightarrow> request" where
  "body_request v = \<lparr>match_info = Map.empty, json = Inr v\<rparr>"

section \<open>Auxiliary facts\<close>

lemma update_fresh: "k \<notin> fst ` set al \<Longrightarrow> AList.update k v al = al @ [(k, v)]"
  by (induction al) auto

lemma secret_keys_accepted:
  "secret_keys chk kvs d = Inr ks \<Longrightarrow> distinct (map fst d @ map fst kvs) \<Longrightarrow>
   ks = d @ map (\<lambda>kv. (fst kv, \<lparr>name = fst kv, value' = SecretStr (snd kv)\<rparr>)) kvs"
proof (induction kvs arbitrary: d)
  case Nil
  then show ?case by simp
next
  case (Cons kv kvs)
  from Cons.prems(2) have fresh: "fst kv \<notin> fst ` set d" by auto
  let ?d = "d @ [(fst kv, \<lparr>name = fst kv, value' = SecretStr (snd kv)\<rparr>)]"
  from Cons.prems(1) have run: "secret_keys chk kvs ?d = Inr ks"
    by (simp add: update_fresh [OF fresh] split: option.splits)
  from Cons.prems(2) have "distinct (map fst ?d @ map fst kvs)" by auto
  from Cons.IH [OF run this] show ?case by simp
qed

lemma secret_keys_all_accepted:
  "(\<forall>kv \<in> set kvs. chk (fst kv) (SecretStr (snd kv)) = None) \<longleftrightarrow>
   (\<exists>ks. secret_keys chk kvs d = Inr ks)"
  by (induction kvs arbitrary: d) (auto split: option.splits)

lemma each_length: "each f xs s = (Inr ys, s') \<Longrightarrow> length ys = length xs"
  by (induction xs arbitrary: s ys) (auto split: prod.splits sum.splits)

lemma list_loop_each:
  "list_loop x store ids acc s =
     (case each (\<lambda>cid. get_credential store cid False) ids s of
        (Inl e, s') \<Rightarrow> (Inl e, s')
      | (Inr rs, s') \<Rightarrow> (Inr (acc @ map (credential_to_dict x) (found rs)), s'))"
proof (induction ids arbitrary: acc s)
  case Nil
  then show ?case by simp
next
  case (Cons cid ids)
  show ?case
  proof (cases "get_credential store cid False s")
    case (Pair r s1)
    show ?thesis
    proof (cases r)
      case (Inl e)
      with Pair show ?thesis by simp
    next
      case (Inr c)
      with Pair show ?thesis
        by (cases c) (simp_all add: Cons.IH split: prod.splits sum.splits)
    qed
  qed
qed

lemma required_loop_each:
  "required_loop store mcs acc s =
     (case each (is_available store) (map cred_id mcs) s of
        (Inl e, s') \<Rightarrow> (Inl e, s')
      | (Inr avs, s') \<Rightarrow> (Inr (acc @ map2 required_entry mcs avs), s'))"
proof (induction mcs arbitrary: acc s)
  case Nil
  then show ?case by simp
next
  case (Cons mc mcs)
  show ?case
  proof (cases "is_available store (cred_id mc) s")
    case (Pair r s1)
    then show ?thesis
      by (cases r) (simp_all add: Cons.IH split: prod.splits sum.splits)
  qed
qed

lemma list_loop_recording:
  "list_all plain_read calls \<Longrightarrow>
   list_all plain_read (snd (snd (list_loop x (recording store) ids acc (s, calls))))"
proof (induction ids arbitrary: acc s calls)
  case Nil
  then show ?case by simp
next
  case (Cons cid ids)
  obtain r s1 where g: "get_credential store cid False s = (r, s1)"
    by (cases "get_credential store cid False s")
  have rec: "get_credential (recording store) cid False (s, calls) =
               (r, (s1, calls @ [GetCredential cid False]))"
    by (simp add: recording_def logged_def g)
  have ok: "list_all plain_read (calls @ [GetCredential cid False])"
    using Cons.prems by simp
  show ?case
  proof (cases r)
    case (Inl e)
    with rec ok show ?thesis by simp
  next
    case (Inr c)
    with rec Cons.IH [OF ok] show ?thesis by simp
  qed
qed

lemma list_loop_state:
  "\<forall>cid t. snd (get_credential store cid False t) = t \<Longrightarrow>
   snd (list_loop x store ids acc s) = s"
proof (induction ids arbitrary: acc s)
  case Nil
  then show ?case by simp
next
  case (Cons cid ids)
  obtain r s1 where g: "get_credential store cid False s = (r, s1)"
    by (cases "get_credential store cid False s")
  with Cons.prems have "s1 = s" by (metis snd_conv)
  with g Cons.IH [OF Cons.prems] show ?case
    by (cases r) simp_all
qed

lemma same_metadata_to_dict:
  "same_metadata c1 c2 \<Longrightarrow> credential_to_dict x c1 = credential_to_dict x c2"
proof -
  assume m: "same_metadata c1 c2"
  then have "map fst (keys c1) = map fst (keys c2)" by (simp add: same_metadata_def)
  then have "map (\<lambda>kv. JStr (fst kv)) (keys c1) = map (\<lambda>kv. JStr (fst kv)) (keys c2)"
    using map_map [of JStr fst "keys c1"] map_map [of JStr fst "keys c2"]
    by (simp add: comp_def)
  with m show ?thesis by (simp add: credential_to_dict_def same_metadata_def)
qed

lemma lookup_agree_cases:
  assumes "rel_sum (=) (rel_option same_metadata) r1 r2"
  obtains (raised) e where "r1 = Inl e" and "r2 = Inl e"
    | (absent) "r1 = Inr None" and "r2 = Inr None"
    | (present) c1 c2 where "r1 = Inr (Some c1)" and "r2 = Inr (Some c2)" and "same_metadata c1 c2"
  using assms by (cases r1; cases r2) (auto elim: option.rel_cases)

lemma list_loop_agree:
  assumes "agree_on_metadata R st1 st2"
  shows "R s1 s2 \<Longrightarrow>
         same_outcome (=) R (list_loop x st1 ids acc s1) (list_loop x st2 ids acc s2)"
proof (induction ids arbitrary: acc s1 s2)
  case Nil
  then show ?case by (simp add: same_outcome_def)
next
  case (Cons cid ids)
  obtain r1 t1 where g1: "get_credential st1 cid False s1 = (r1, t1)"
    by (cases "get_credential st1 cid False s1")
  obtain r2 t2 where g2: "get_credential st2 cid False s2 = (r2, t2)"
    by (cases "get_credential st2 cid False s2")
  from assms Cons.prems g1 g2
  have rel: "rel_sum (=) (rel_option same_metadata) r1 r2" and st: "R t1 t2"
    by (auto simp: agree_on_metadata_def same_outcome_def dest!: spec [of _ cid] spec [of _ s1] spec [of _ s2])
  from rel show ?case
  proof (cases rule: lookup_agree_cases)
    case (raised e)
    with g1 g2 st show ?thesis by (simp add: same_outcome_def)
  next
    case absent
    with g1 g2 Cons.IH [OF st] show ?thesis by simp
  next
    case (present c1 c2)
    with g1 g2 Cons.IH [OF st] same_metadata_to_dict [of c1 c2 x] show ?thesis by simp
  qed
qed

lemma check_agent_try_each:
  "check_agent_try from_agent_path store p s =
     (case from_agent_path p False s of
        (Inl e, s1) \<Rightarrow> (Inl e, s1)
      | (Inr session, s1) \<Rightarrow>
          (case each (is_available store) (map cred_id (missing session)) s1 of
             (Inl e, s2) \<Rightarrow> (Inl e, s2)
           | (Inr avs, s2) \<Rightarrow>
               (Inr \<lparr>status = 200,
                     body = JObject [(''required'',
                       JList (map2 required_entry (missing session) avs))]\<rparr>, s2)))"
  by (simp add: check_agent_try_def required_loop_each json_response_def
           split: prod.splits sum.splits)

lemma field_required_entry:
  "field (required_entry mc a) ''credential_id'' = Some (cred_id mc) \<and>
   field (required_entry mc a) ''available'' = Some a"
  by (simp add: field_def required_entry_def)

section \<open>The claims\<close>

text \<open>
  C1. POST /api/credentials with a JSON body that is a dict: if "credential_id" is absent or
  falsy, or "keys" is absent, falsy or not a dict, the handler answers 400 with the error
  "credential_id and keys are required". Otherwise it builds, for each key name \<open>k\<close> of the
  given dict in turn, the key named \<open>k\<close> with the given value as its secret, and then the
  credential with the given credential_id and these keys. If a constructor rejects its
  arguments the handler raises that exception and makes no call to the store. Otherwise
  the credential has the given id and maps each key name to its key, it is passed to
  \<open>save_credential\<close> (the only call made) and, when that returns, the answer is 201 with
  the body \<^verbatim>\<open>{"saved": credential_id}\<close>.
\<close>

theorem handle_save_credential_validates_builds_saves:
  assumes "json request = Inr (JObject b)"
  shows "if (case map_of b ''credential_id'' of None \<Rightarrow> True | Some c \<Rightarrow> \<not> truthy c) \<or>
            (case map_of b ''keys'' of None \<Rightarrow> True | Some k \<Rightarrow> \<not> truthy k \<or> \<not> is_dict k)
         then handle_save_credential m store request s =
                (Inr \<lparr>status = 400,
                      body = JObject [(''error'', JStr ''credential_id and keys are required'')]\<rparr>,
                 s)
         else \<exists>c kvs.
                map_of b ''credential_id'' = Some c \<and> map_of b ''keys'' = Some (JObject kvs) \<and>
                (case secret_keys (check_key m) kvs [] of
                   Inl e \<Rightarrow>
                     (\<exists>kv \<in> set kvs. check_key m (fst kv) (SecretStr (snd kv)) \<noteq> None) \<and>
                     handle_save_credential m store request s = (Inl e, s) \<and>
                     snd (handle_save_credential m (recording store) request (s, [])) = (s, [])
                 | Inr ks \<Rightarrow>
                     (\<forall>kv \<in> set kvs. check_key m (fst kv) (SecretStr (snd kv)) = None) \<and>
                     (distinct (map fst kvs) \<longrightarrow>
                        ks = map (\<lambda>kv. (fst kv, \<lparr>name = fst kv, value' = SecretStr (snd kv)\<rparr>))
                               kvs) \<and>
                     (case check_object m c ks of
                        Some e \<Rightarrow>
                          handle_save_credential m store request s = (Inl e, s) \<and>
                          snd (handle_save_credential m (recording store) request (s, [])) =
                            (s, [])
                      | None \<Rightarrow>
                          handle_save_credential m store request s =
                            (case save_credential store
                                    ((defaults m)\<lparr>id' := c, keys := ks\<rparr>) s of
                               (Inl e, s') \<Rightarrow> (Inl e, s')
                             | (Inr u, s') \<Rightarrow>
                                 (Inr \<lparr>status = 201, body = JObject [(''saved'', c)]\<rparr>, s')) \<and>
                          snd (snd (handle_save_credential m (recording store) request (s, []))) =
                            [SaveCredential ((defaults m)\<lparr>id' := c, keys := ks\<rparr>)]))"
proof (cases "map_of b ''credential_id''")
  case None
  with assms show ?thesis
    by (simp add: handle_save_credential_def json_response_def)
next
  case c: (Some c)
  show ?thesis
  proof (cases "map_of b ''keys''")
    case None
    with assms c show ?thesis
      by (simp add: handle_save_credential_def json_response_def)
  next
    case k: (Some k)
    show ?thesis
    proof (cases "is_dict k")
      case False
      with assms c k show ?thesis
        by (simp add: handle_save_credential_def json_response_def)
    next
      case True
      then obtain kvs where kvs: "k = JObject kvs" by (cases k) simp_all
      show ?thesis
      proof (cases "\<not> truthy c \<or> kvs = []")
        case True
        with assms c k kvs show ?thesis
          by (auto simp: handle_save_credential_def json_response_def)
      next
        case ok: False
        show ?thesis
        proof (cases "secret_keys (check_key m) kvs []")
          case (Inl e)
          with secret_keys_all_accepted [of kvs "check_key m" "[]"]
          have "\<exists>kv \<in> set kvs. check_key m (fst kv) (SecretStr (snd kv)) \<noteq> None"
            by auto
          with Inl assms c k kvs ok show ?thesis
            by (simp add: handle_save_credential_def)
        next
          case (Inr ks)
          with secret_keys_all_accepted [of kvs "check_key m" "[]"]
          have all: "\<forall>kv \<in> set kvs. check_key m (fst kv) (SecretStr (snd kv)) = None"
            by auto
          have shape: "distinct (map fst kvs) \<longrightarrow>
                  ks = map (\<lambda>kv. (fst kv, \<lparr>name = fst kv, value' = SecretStr (snd kv)\<rparr>)) kvs"
            using secret_keys_accepted [OF Inr] by simp
          show ?thesis
          proof (cases "check_object m c ks")
            case None
            with Inr all shape assms c k kvs ok show ?thesis
              by (simp add: handle_save_credential_def json_response_def recording_def
                            logged_def split: prod.splits sum.splits)
          next
            case (Some e)
            with Inr all shape assms c k kvs ok show ?thesis
              by (simp add: handle_save_credential_def)
          qed
        qed
      qed
    qed
  qed
qed

theorem handle_save_credential_validates_builds_saves_witness:
  "json (body_request (JObject [(''credential_id'', JStr ''github''),
                                (''keys'', JObject [(''token'', JStr ''ghp_1'')])])) =
     Inr (JObject [(''credential_id'', JStr ''github''),
                   (''keys'', JObject [(''token'', JStr ''ghp_1'')])]) \<and>
   handle_save_credential str_id_models dict_store
     (body_request (JObject [(''credential_id'', JStr ''github''),
                             (''keys'', JObject [(''token'', JStr ''ghp_1'')])])) [] =
     (Inr \<lparr>status = 201, body = JObject [(''saved'', JStr ''github'')]\<rparr>,
      [(JStr ''github'',
        blank\<lparr>id' := JStr ''github'',
              keys := [(''token'', \<lparr>name = ''token'', value' = SecretStr (JStr ''ghp_1'')\<rparr>)]\<rparr>)])"
proof -
  let ?b = "[(''credential_id'', JStr ''github''),
             (''keys'', JObject [(''token'', JStr ''ghp_1'')])]"
  have h: "json (body_request (JObject ?b)) = Inr (JObject ?b)"
    by (simp add: body_request_def)
  from handle_save_credential_validates_builds_saves
         [of "body_request (JObject ?b)" ?b str_id_models dict_store "[]", OF h] h
  show ?thesis by (simp add: dict_store_def str_id_models_def)
qed

text \<open>
  With model classes that take a string only as the id, the body
  \<^verbatim>\<open>{"credential_id": 123, "keys": {"token": "ghp_1"}}\<close> passes the checks of the handler
  and is neither saved nor answered with 201: the constructor raises.
\<close>

theorem non_string_id_raises:
  "json (body_request (JObject [(''credential_id'', JInt 123),
                                (''keys'', JObject [(''token'', JStr ''ghp_1'')])])) =
     Inr (JObject [(''credential_id'', JInt 123),
                   (''keys'', JObject [(''token'', JStr ''ghp_1'')])]) \<and>
   truthy (JInt 123) \<and>
   truthy (JObject [(''token'', JStr ''ghp_1'')]) \<and>
   is_dict (JObject [(''token'', JStr ''ghp_1'')]) \<and>
   handle_save_credential str_id_models dict_store
     (body_request (JObject [(''credential_id'', JInt 123),
                             (''keys'', JObject [(''token'', JStr ''ghp_1'')])])) [] =
     (Inl (Exc ''ValidationError'' ''1 validation error for CredentialObject''), [])"
  by (simp add: handle_save_credential_def body_request_def str_id_models_def)

text \<open>
  C2. GET /api/credentials/{credential_id}: when the store's lookup (without refresh)
  returns, the handler answers 404 with an error body exactly when the lookup gave None,
  and otherwise 200 with the metadata serialization of the credential as its body: the
  object with the fields credential_id (the id), credential_type (its string), key_names
  (the names of the keys, in the order of the dict), created_at and updated_at (ISO
  strings, or null where the timestamp is None), and nothing else.
\<close>

theorem handle_get_credential_found_or_404:
  assumes "match_info request ''credential_id'' = Some cid"
      and "get_credential store (JStr cid) False s = (Inr r, s')"
  shows "\<exists>resp. handle_get_credential x store request s = (Inr resp, s') \<and>
           (status resp = 404 \<longleftrightarrow> r = None) \<and>
           (r = None \<longrightarrow>
              body resp = JObject [(''error'',
                JStr (''Credential '' @ [CHR 0x27] @ cid @ [CHR 0x27] @ '' not found''))]) \<and>
           (\<forall>cred. r = Some cred \<longrightarrow>
              status resp = 200 \<and> body resp = credential_to_dict x cred \<and>
              body resp =
                JObject
                  [(''credential_id'', id' cred),
                   (''credential_type'', JStr (str_credential_type x (credential_type cred))),
                   (''key_names'', JList (map (\<lambda>kv. JStr (fst kv)) (keys cred))),
                   (''created_at'',
                      (case created_at cred of None \<Rightarrow> JNull | Some d \<Rightarrow> JStr (isoformat x d))),
                   (''updated_at'',
                      (case updated_at cred of None \<Rightarrow> JNull | Some d \<Rightarrow> JStr (isoformat x d)))])"
  using assms
  by (cases r)
     (simp_all add: handle_get_credential_def json_response_def not_found_def
                    credential_to_dict_def)

theorem handle_get_credential_found_or_404_witness:
  "match_info (path_request ''github'') ''credential_id'' = Some ''github'' \<and>
   get_credential dict_store (JStr ''github'') False [(JStr ''github'', github ''ghp_1'')] =
     (Inr (Some (github ''ghp_1'')), [(JStr ''github'', github ''ghp_1'')]) \<and>
   (\<exists>resp. handle_get_credential as_text dict_store (path_request ''github'')
              [(JStr ''github'', github ''ghp_1'')] =
              (Inr resp, [(JStr ''github'', github ''ghp_1'')]) \<and>
            status resp = 200 \<and>
            body resp = JObject
              [(''credential_id'', JStr ''github''), (''credential_type'', JStr ''api_key''),
               (''key_names'', JList [JStr ''token'']),
               (''created_at'', JStr ''2025-01-01T00:00:00''), (''updated_at'', JNull)])"
proof -
  have h1: "match_info (path_request ''github'') ''credential_id'' = Some ''github''"
    by (simp add: path_request_def)
  have h2: "get_credential dict_store (JStr ''github'') False [(JStr ''github'', github ''ghp_1'')] =
     (Inr (Some (github ''ghp_1'')), [(JStr ''github'', github ''ghp_1'')])"
    by (simp add: dict_store_def)
  have ser: "credential_to_dict as_text (github ''ghp_1'') = JObject
              [(''credential_id'', JStr ''github''), (''credential_type'', JStr ''api_key''),
               (''key_names'', JList [JStr ''token'']),
               (''created_at'', JStr ''2025-01-01T00:00:00''), (''updated_at'', JNull)]"
    by (simp add: credential_to_dict_def as_text_def github_def)
  from handle_get_credential_found_or_404 [OF h1 h2, of as_text] h1 h2 ser
  show ?thesis by auto
qed

text \<open>
  C3. DELETE /api/credentials/{credential_id}: when \<open>delete_credential\<close> returns, the
  handler answers 404 with an error body exactly when the result is falsy, and otherwise
  200 with the body \<^verbatim>\<open>{"deleted": true}\<close>.
\<close>

theorem handle_delete_credential_deleted_or_404:
  assumes "match_info request ''credential_id'' = Some cid"
      and "delete_credential store (JStr cid) s = (Inr deleted, s')"
  shows "\<exists>resp. handle_delete_credential store request s = (Inr resp, s') \<and>
           (status resp = 404 \<longleftrightarrow> \<not> truthy deleted) \<and>
           (\<not> truthy deleted \<longrightarrow>
              body resp = JObject [(''error'',
                JStr (''Credential '' @ [CHR 0x27] @ cid @ [CHR 0x27] @ '' not found''))]) \<and>
           (truthy deleted \<longrightarrow>
              status resp = 200 \<and> body resp = JObject [(''deleted'', JBool True)])"
  using assms
  by (simp add: handle_delete_credential_def json_response_def not_found_def)

theorem handle_delete_credential_deleted_or_404_witness:
  "match_info (path_request ''slack'') ''credential_id'' = Some ''slack'' \<and>
   delete_credential dict_store (JStr ''slack'') [(JStr ''github'', github ''ghp_1'')] =
     (Inr (JBool False), [(JStr ''github'', github ''ghp_1'')]) \<and>
   (\<exists>resp. handle_delete_credential dict_store (path_request ''slack'')
              [(JStr ''github'', github ''ghp_1'')] =
              (Inr resp, [(JStr ''github'', github ''ghp_1'')]) \<and>
            status resp = 404)"
proof -
  have h1: "match_info (path_request ''slack'') ''credential_id'' = Some ''slack''"
    by (simp add: path_request_def)
  have h2: "delete_credential dict_store (JStr ''slack'') [(JStr ''github'', github ''ghp_1'')] =
     (Inr (JBool False), [(JStr ''github'', github ''ghp_1'')])"
    by (simp add: dict_store_def)
  from handle_delete_credential_deleted_or_404 [OF h1 h2] h1 h2
  show ?thesis by auto
qed

text \<open>
  C4. GET /api/credentials: when \<open>list_credentials\<close> and the lookups return, the handler
  answers 200 and the field "credentials" holds the metadata serializations of the ids
  whose lookup (without refresh) is not None, in the order of \<open>list_credentials\<close>; there
  is one lookup per id, and an id that resolves to None leaves no entry. The serialization
  of a credential is the object with the fields credential_id, credential_type, key_names,
  created_at and updated_at.
\<close>

theorem handle_list_credentials_lists_found:
  assumes "list_credentials store s = (Inr ids, s1)"
      and "each (\<lambda>cid. get_credential store cid False) ids s1 = (Inr rs, s2)"
  shows "handle_list_credentials x store request s =
           (Inr \<lparr>status = 200,
                 body = JObject [(''credentials'',
                   JList (map (\<lambda>cred.
                                JObject
                  [(''credential_id'', id' cred),
                   (''credential_type'', JStr (str_credential_type x (credential_type cred))),
                   (''key_names'', JList (map (\<lambda>kv. JStr (fst kv)) (keys cred))),
                   (''created_at'',
                      (case created_at cred of None \<Rightarrow> JNull | Some d \<Rightarrow> JStr (isoformat x d))),
                   (''updated_at'',
                      (case updated_at cred of None \<Rightarrow> JNull | Some d \<Rightarrow> JStr (isoformat x d)))])
                           (found rs)))]\<rparr>,
            s2) \<and>
         length rs = length ids \<and>
         handle_list_credentials x store request s =
           (Inr \<lparr>status = 200,
                 body = JObject [(''credentials'', JList (map (credential_to_dict x) (found rs)))]\<rparr>,
            s2)"
proof -
  have short: "handle_list_credentials x store request s =
           (Inr \<lparr>status = 200,
                 body = JObject [(''credentials'', JList (map (credential_to_dict x) (found rs)))]\<rparr>,
            s2)"
    using assms by (simp add: handle_list_credentials_def list_loop_each json_response_def)
  have fields: "map (credential_to_dict x) (found rs) =
           map (\<lambda>cred.
                  JObject
                  [(''credential_id'', id' cred),
                   (''credential_type'', JStr (str_credential_type x (credential_type cred))),
                   (''key_names'', JList (map (\<lambda>kv. JStr (fst kv)) (keys cred))),
                   (''created_at'',
                      (case created_at cred of None \<Rightarrow> JNull | Some d \<Rightarrow> JStr (isoformat x d))),
                   (''updated_at'',
                      (case updated_at cred of None \<Rightarrow> JNull | Some d \<Rightarrow> JStr (isoformat x d)))])
               (found rs)"
    by (simp add: credential_to_dict_def)
  have "length rs = length ids"
    using each_length [OF assms(2)] .
  with short short [unfolded fields] show ?thesis by (intro conjI)
qed

theorem handle_list_credentials_lists_found_witness:
  "list_credentials
     (dict_store\<lparr>list_credentials := (\<lambda>s. (Inr (JStr ''gone'' # map fst s), s))\<rparr>)
     [(JStr ''github'', github ''ghp_1'')] =
     (Inr [JStr ''gone'', JStr ''github''], [(JStr ''github'', github ''ghp_1'')]) \<and>
   each (\<lambda>cid. get_credential
                  (dict_store\<lparr>list_credentials := (\<lambda>s. (Inr (JStr ''gone'' # map fst s), s))\<rparr>)
                  cid False)
     [JStr ''gone'', JStr ''github''] [(JStr ''github'', github ''ghp_1'')] =
     (Inr [None, Some (github ''ghp_1'')], [(JStr ''github'', github ''ghp_1'')]) \<and>
   handle_list_credentials as_text
     (dict_store\<lparr>list_credentials := (\<lambda>s. (Inr (JStr ''gone'' # map fst s), s))\<rparr>)
     (path_request []) [(JStr ''github'', github ''ghp_1'')] =
     (Inr \<lparr>status = 200,
           body = JObject [(''credentials'',
             JList [JObject
               [(''credential_id'', JStr ''github''), (''credential_type'', JStr ''api_key''),
                (''key_names'', JList [JStr ''token'']),
                (''created_at'', JStr ''2025-01-01T00:00:00''), (''updated_at'', JNull)]])]\<rparr>,
      [(JStr ''github'', github ''ghp_1'')])"
proof -
  let ?store = "dict_store\<lparr>list_credentials := (\<lambda>s. (Inr (JStr ''gone'' # map fst s), s))\<rparr>
                  :: (string, string, (json \<times> (string, string) CredentialObject) list) CredentialStore"
  let ?s = "[(JStr ''github'', github ''ghp_1'')]"
  have h1: "list_credentials ?store ?s = (Inr [JStr ''gone'', JStr ''github''], ?s)"
    by simp
  have h2: "each (\<lambda>cid. get_credential ?store cid False) [JStr ''gone'', JStr ''github''] ?s =
              (Inr [None, Some (github ''ghp_1'')], ?s)"
    by (simp add: dict_store_def)
  note all = handle_list_credentials_lists_found [OF h1 h2, of as_text "path_request []"]
  from conjunct1 [OF all] have
    "handle_list_credentials as_text ?store (path_request []) ?s =
       (Inr \<lparr>status = 200,
             body = JObject [(''credentials'', JList [JObject
               [(''credential_id'', JStr ''github''), (''credential_type'', JStr ''api_key''),
                (''key_names'', JList [JStr ''token'']),
                (''created_at'', JStr ''2025-01-01T00:00:00''), (''updated_at'', JNull)]])]\<rparr>,
        ?s)"
    by (simp add: as_text_def github_def)
  with h1 h2 show ?thesis by (intro conjI)
qed

text \<open>
  C5. The answers to GET /api/credentials and GET /api/credentials/{credential_id} carry no
  secret value: two stores that agree on the credential ids, the credential types, the key
  names in the order of the dict, and the timestamps, and differ in any way in the secret
  values of the keys, get the same answer from each of the two handlers. The serialization
  of a credential is a function of its id, its type, the list of its key names in the
  order of the dict, created_at and updated_at, and of nothing else.
\<close>

theorem metadata_responses_hide_secrets:
  assumes "agree_on_metadata R st1 st2" and "R s1 s2"
  shows "fst (handle_list_credentials x st1 request s1) =
           fst (handle_list_credentials x st2 request s2) \<and>
         fst (handle_get_credential x st1 request s1) =
           fst (handle_get_credential x st2 request s2) \<and>
         (\<forall>c1 c2. same_metadata c1 c2 \<longrightarrow> credential_to_dict x c1 = credential_to_dict x c2) \<and>
         (\<forall>c. credential_to_dict x c =
                JObject
                  [(''credential_id'', id' c),
                   (''credential_type'', JStr (str_credential_type x (credential_type c))),
                   (''key_names'', JList (map JStr (map fst (keys c)))),
                   (''created_at'',
                      (case created_at c of None \<Rightarrow> JNull | Some d \<Rightarrow> JStr (isoformat x d))),
                   (''updated_at'',
                      (case updated_at c of None \<Rightarrow> JNull | Some d \<Rightarrow> JStr (isoformat x d)))])"
proof -
  have l: "fst (handle_list_credentials x st1 request s1) =
           fst (handle_list_credentials x st2 request s2)"
  proof -
    obtain r1 t1 where l1: "list_credentials st1 s1 = (r1, t1)"
      by (cases "list_credentials st1 s1")
    obtain r2 t2 where l2: "list_credentials st2 s2 = (r2, t2)"
      by (cases "list_credentials st2 s2")
    from assms l1 l2 have eq: "r2 = r1" and st: "R t1 t2"
      by (auto simp: agree_on_metadata_def same_outcome_def sum.rel_eq
               dest!: spec [of _ s1] spec [of _ s2])
    show ?thesis
    proof (cases r1)
      case (Inl e)
      with l1 l2 eq show ?thesis by (simp add: handle_list_credentials_def)
    next
      case (Inr ids)
      obtain q1 u1 where p1: "list_loop x st1 ids [] t1 = (q1, u1)"
        by (cases "list_loop x st1 ids [] t1")
      obtain q2 u2 where p2: "list_loop x st2 ids [] t2 = (q2, u2)"
        by (cases "list_loop x st2 ids [] t2")
      from list_loop_agree [OF assms(1) st, of x ids "[]"] p1 p2 have "q2 = q1"
        by (simp add: same_outcome_def sum.rel_eq)
      with Inr l1 l2 eq p1 p2 show ?thesis
        by (cases q1) (simp_all add: handle_list_credentials_def)
    qed
  qed
  have g: "fst (handle_get_credential x st1 request s1) =
           fst (handle_get_credential x st2 request s2)"
  proof (cases "match_info request ''credential_id''")
    case None
    then show ?thesis by (simp add: handle_get_credential_def)
  next
    case (Some cid)
    obtain r1 t1 where g1: "get_credential st1 (JStr cid) False s1 = (r1, t1)"
      by (cases "get_credential st1 (JStr cid) False s1")
    obtain r2 t2 where g2: "get_credential st2 (JStr cid) False s2 = (r2, t2)"
      by (cases "get_credential st2 (JStr cid) False s2")
    from assms g1 g2
    have rel: "rel_sum (=) (rel_option same_metadata) r1 r2"
      by (auto simp: agree_on_metadata_def same_outcome_def
               dest!: spec [of _ "JStr cid"] spec [of _ s1] spec [of _ s2])
    from rel show ?thesis
    proof (cases rule: lookup_agree_cases)
      case (raised e)
      with g1 g2 Some show ?thesis by (simp add: handle_get_credential_def)
    next
      case absent
      with g1 g2 Some show ?thesis by (simp add: handle_get_credential_def)
    next
      case (present c1 c2)
      with g1 g2 Some same_metadata_to_dict [of c1 c2 x]
      show ?thesis by (simp add: handle_get_credential_def)
    qed
  qed
  have f: "credential_to_dict x c =
                JObject
                  [(''credential_id'', id' c),
                   (''credential_type'', JStr (str_credential_type x (credential_type c))),
                   (''key_names'', JList (map JStr (map fst (keys c)))),
                   (''created_at'',
                      (case created_at c of None \<Rightarrow> JNull | Some d \<Rightarrow> JStr (isoformat x d))),
                   (''updated_at'',
                      (case updated_at c of None \<Rightarrow> JNull | Some d \<Rightarrow> JStr (isoformat x d)))]" for c
    by (simp add: credential_to_dict_def)
  from l g same_metadata_to_dict f show ?thesis by blast
qed

theorem metadata_responses_hide_secrets_witness:
  "agree_on_metadata
     (\<lambda>a b. a = [(JStr ''github'', github ''ghp_1'')] \<and> b = [(JStr ''github'', github ''ghp_2'')])
     dict_store dict_store \<and>
   github ''ghp_1'' \<noteq> github ''ghp_2'' \<and>
   fst (handle_list_credentials as_text dict_store (path_request [])
          [(JStr ''github'', github ''ghp_1'')]) =
   fst (handle_list_credentials as_text dict_store (path_request [])
          [(JStr ''github'', github ''ghp_2'')]) \<and>
   fst (handle_get_credential as_text dict_store (path_request ''github'')
          [(JStr ''github'', github ''ghp_1'')]) =
   fst (handle_get_credential as_text dict_store (path_request ''github'')
          [(JStr ''github'', github ''ghp_2'')])"
proof -
  define R :: "(json \<times> (string, string) CredentialObject) list \<Rightarrow>
               (json \<times> (string, string) CredentialObject) list \<Rightarrow> bool"
    where "R = (\<lambda>a b. a = [(JStr ''github'', github ''ghp_1'')] \<and>
                       b = [(JStr ''github'', github ''ghp_2'')])"
  have m: "rel_option same_metadata (map_of [(JStr ''github'', github ''ghp_1'')] cid)
             (map_of [(JStr ''github'', github ''ghp_2'')] cid)" for cid
    by (simp add: same_metadata_def github_def)
  have h1: "agree_on_metadata R dict_store dict_store"
    unfolding agree_on_metadata_def same_outcome_def dict_store_def R_def using m by simp
  have h2: "R [(JStr ''github'', github ''ghp_1'')] [(JStr ''github'', github ''ghp_2'')]"
    by (simp add: R_def)
  have d: "github ''ghp_1'' \<noteq> github ''ghp_2''"
    by (simp add: github_def)
  note l = metadata_responses_hide_secrets
    [of R dict_store dict_store "[(JStr ''github'', github ''ghp_1'')]"
        "[(JStr ''github'', github ''ghp_2'')]" as_text "path_request []", OF h1 h2]
  note g = metadata_responses_hide_secrets
    [of R dict_store dict_store "[(JStr ''github'', github ''ghp_1'')]"
        "[(JStr ''github'', github ''ghp_2'')]" as_text "path_request ''github''", OF h1 h2]
  from h1 have "agree_on_metadata
     (\<lambda>a b. a = [(JStr ''github'', github ''ghp_1'')] \<and> b = [(JStr ''github'', github ''ghp_2'')])
     dict_store dict_store" unfolding R_def .
  with d conjunct1 [OF l] conjunct1 [OF conjunct2 [OF g]] show ?thesis by (intro conjI)
qed

text \<open>
  The order of the key names shows in the answers: two credentials with the same id, type,
  timestamps, secret values and set of key names, entered in a different order, are
  serialized differently, and so are the answers of the stores that hold them.
\<close>

theorem key_order_shows_in_answers:
  "id' (two_keys ''access_key'' ''secret_key'') = id' (two_keys ''secret_key'' ''access_key'') \<and>
   credential_type (two_keys ''access_key'' ''secret_key'') =
     credential_type (two_keys ''secret_key'' ''access_key'') \<and>
   set (map fst (keys (two_keys ''access_key'' ''secret_key''))) =
     set (map fst (keys (two_keys ''secret_key'' ''access_key''))) \<and>
   map_of (keys (two_keys ''access_key'' ''secret_key'')) =
     map_of (keys (two_keys ''secret_key'' ''access_key'')) \<and>
   created_at (two_keys ''access_key'' ''secret_key'') =
     created_at (two_keys ''secret_key'' ''access_key'') \<and>
   updated_at (two_keys ''access_key'' ''secret_key'') =
     updated_at (two_keys ''secret_key'' ''access_key'') \<and>
   credential_to_dict as_text (two_keys ''access_key'' ''secret_key'') \<noteq>
     credential_to_dict as_text (two_keys ''secret_key'' ''access_key'') \<and>
   fst (handle_get_credential as_text dict_store (path_request ''aws'')
          [(JStr ''aws'', two_keys ''access_key'' ''secret_key'')]) \<noteq>
   fst (handle_get_credential as_text dict_store (path_request ''aws'')
          [(JStr ''aws'', two_keys ''secret_key'' ''access_key'')]) \<and>
   fst (handle_list_credentials as_text dict_store (path_request [])
          [(JStr ''aws'', two_keys ''access_key'' ''secret_key'')]) \<noteq>
   fst (handle_list_credentials as_text dict_store (path_request [])
          [(JStr ''aws'', two_keys ''secret_key'' ''access_key'')])"
proof -
  have same_map: "map_of (keys (two_keys ''access_key'' ''secret_key'')) =
     map_of (keys (two_keys ''secret_key'' ''access_key''))"
    by (rule ext) (simp add: two_keys_def)
  have same_set: "set (map fst (keys (two_keys ''access_key'' ''secret_key''))) =
     set (map fst (keys (two_keys ''secret_key'' ''access_key'')))"
    by (auto simp: two_keys_def)
  have ser: "credential_to_dict as_text (two_keys ''access_key'' ''secret_key'') \<noteq>
     credential_to_dict as_text (two_keys ''secret_key'' ''access_key'')"
    by (simp add: credential_to_dict_def two_keys_def)
  have get: "fst (handle_get_credential as_text dict_store (path_request ''aws'')
          [(JStr ''aws'', two_keys ''access_key'' ''secret_key'')]) \<noteq>
   fst (handle_get_credential as_text dict_store (path_request ''aws'')
          [(JStr ''aws'', two_keys ''secret_key'' ''access_key'')])"
    using ser
    by (simp add: handle_get_credential_def path_request_def dict_store_def json_response_def)
  have lst: "fst (handle_list_credentials as_text dict_store (path_request [])
          [(JStr ''aws'', two_keys ''access_key'' ''secret_key'')]) \<noteq>
   fst (handle_list_credentials as_text dict_store (path_request [])
          [(JStr ''aws'', two_keys ''secret_key'' ''access_key'')])"
    using ser
    by (simp add: handle_list_credentials_def dict_store_def json_response_def)
  have rest: "id' (two_keys ''access_key'' ''secret_key'') =
      id' (two_keys ''secret_key'' ''access_key'')"
    "credential_type (two_keys ''access_key'' ''secret_key'') =
      credential_type (two_keys ''secret_key'' ''access_key'')"
    "created_at (two_keys ''access_key'' ''secret_key'') =
      created_at (two_keys ''secret_key'' ''access_key'')"
    "updated_at (two_keys ''access_key'' ''secret_key'') =
      updated_at (two_keys ''secret_key'' ''access_key'')"
    by (simp_all add: two_keys_def)
  from rest same_set same_map ser get lst show ?thesis by (intro conjI)
qed

text \<open>
  C6. Each of the five handlers returns a response whose status is 200, 201, 400, 404 or
  500 exactly when the calls it makes return: for the two GET handlers and the DELETE
  handler the store calls; for POST /api/credentials with a JSON dict as body, when the
  body is rejected with 400, or else the constructors of the model classes accept their
  arguments and \<open>save_credential\<close> returns. POST check-agent with a JSON dict as body
  always returns such a response, since the exceptions of the session builder and of
  \<open>is_available\<close> become 500. A body that is not JSON, or that is JSON but not a dict,
  makes both POST handlers raise (the JSONDecodeError of the parser, the AttributeError
  of \<^verbatim>\<open>body.get\<close>) instead of returning a response.
\<close>

theorem handlers_answer_or_raise:
  "(answers (handle_list_credentials x store request) s \<longleftrightarrow>
      (\<exists>ids s1 rs s2. list_credentials store s = (Inr ids, s1) \<and>
         each (\<lambda>cid. get_credential store cid False) ids s1 = (Inr rs, s2))) \<and>
   (\<forall>cid. match_info request ''credential_id'' = Some cid \<longrightarrow>
      (answers (handle_get_credential x store request) s \<longleftrightarrow>
         \<not> isl (fst (get_credential store (JStr cid) False s))) \<and>
      (answers (handle_delete_credential store request) s \<longleftrightarrow>
         \<not> isl (fst (delete_credential store (JStr cid) s)))) \<and>
   (\<forall>b. json request = Inr (JObject b) \<longrightarrow>
      (answers (handle_save_credential m store request) s \<longleftrightarrow>
         (case map_of b ''credential_id'' of None \<Rightarrow> True | Some c \<Rightarrow> \<not> truthy c) \<or>
         (case map_of b ''keys'' of None \<Rightarrow> True | Some k \<Rightarrow> \<not> truthy k \<or> \<not> is_dict k) \<or>
         (\<exists>c kvs ks.
            map_of b ''credential_id'' = Some c \<and> map_of b ''keys'' = Some (JObject kvs) \<and>
            secret_keys (check_key m) kvs [] = Inr ks \<and> check_object m c ks = None \<and>
            \<not> isl (fst (save_credential store ((defaults m)\<lparr>id' := c, keys := ks\<rparr>) s)))) \<and>
      answers (handle_check_agent from_agent_path store request) s) \<and>
   (\<forall>e. json request = Inl e \<longrightarrow>
      handle_save_credential m store request s = (Inl e, s) \<and>
      handle_check_agent from_agent_path store request s = (Inl e, s)) \<and>
   (\<forall>v. json request = Inr v \<and> \<not> is_dict v \<longrightarrow>
      handle_save_credential m store request s = (Inl (AttributeError v ''get''), s) \<and>
      handle_check_agent from_agent_path store request s = (Inl (AttributeError v ''get''), s))"
  (is "?L \<and> ?G \<and> ?S \<and> ?E \<and> ?N")
proof -
  have l: "answers (handle_list_credentials x store request) s \<longleftrightarrow>
      (\<exists>ids s1 rs s2. list_credentials store s = (Inr ids, s1) \<and>
         each (\<lambda>cid. get_credential store cid False) ids s1 = (Inr rs, s2))"
  proof -
    obtain r s1 where i: "list_credentials store s = (r, s1)"
      by (cases "list_credentials store s")
    show ?thesis
    proof (cases r)
      case (Inl e)
      with i show ?thesis by (simp add: answers_def handle_list_credentials_def)
    next
      case (Inr ids)
      obtain q s2 where e: "each (\<lambda>cid. get_credential store cid False) ids s1 = (q, s2)"
        by (cases "each (\<lambda>cid. get_credential store cid False) ids s1")
      with i Inr show ?thesis
        by (cases q)
           (simp_all add: answers_def handle_list_credentials_def list_loop_each
                          json_response_def module_status_def)
    qed
  qed
  have g: "answers (handle_get_credential x store request) s \<longleftrightarrow>
             \<not> isl (fst (get_credential store (JStr cid) False s))"
    if m: "match_info request ''credential_id'' = Some cid" for cid
  proof -
    obtain r s1 where c: "get_credential store (JStr cid) False s = (r, s1)"
      by (cases "get_credential store (JStr cid) False s")
    show ?thesis
    proof (cases r)
      case (Inl e)
      with c m show ?thesis by (simp add: answers_def handle_get_credential_def)
    next
      case (Inr found)
      with c m show ?thesis
        by (cases found)
           (simp_all add: answers_def handle_get_credential_def json_response_def
                          module_status_def)
    qed
  qed
  have d: "answers (handle_delete_credential store request) s \<longleftrightarrow>
             \<not> isl (fst (delete_credential store (JStr cid) s))"
    if m: "match_info request ''credential_id'' = Some cid" for cid
  proof -
    obtain r s1 where c: "delete_credential store (JStr cid) s = (r, s1)"
      by (cases "delete_credential store (JStr cid) s")
    with m show ?thesis
      by (cases r)
         (simp_all add: answers_def handle_delete_credential_def json_response_def
                        module_status_def)
  qed
  have sv: "answers (handle_save_credential m store request) s \<longleftrightarrow>
         (case map_of b ''credential_id'' of None \<Rightarrow> True | Some c \<Rightarrow> \<not> truthy c) \<or>
         (case map_of b ''keys'' of None \<Rightarrow> True | Some k \<Rightarrow> \<not> truthy k \<or> \<not> is_dict k) \<or>
         (\<exists>c kvs ks.
            map_of b ''credential_id'' = Some c \<and> map_of b ''keys'' = Some (JObject kvs) \<and>
            secret_keys (check_key m) kvs [] = Inr ks \<and> check_object m c ks = None \<and>
            \<not> isl (fst (save_credential store ((defaults m)\<lparr>id' := c, keys := ks\<rparr>) s)))"
    if j: "json request = Inr (JObject b)" for b
  proof (cases "map_of b ''credential_id''")
    case None
    with j show ?thesis
      by (simp add: answers_def handle_save_credential_def json_response_def module_status_def)
  next
    case c: (Some c)
    show ?thesis
    proof (cases "map_of b ''keys''")
      case None
      with j c show ?thesis
        by (simp add: answers_def handle_save_credential_def json_response_def
                      module_status_def)
    next
      case k: (Some k)
      show ?thesis
      proof (cases "\<not> truthy c \<or> \<not> truthy k \<or> \<not> is_dict k")
        case True
        with j c k show ?thesis
          by (auto simp: answers_def handle_save_credential_def json_response_def
                         module_status_def)
      next
        case ok: False
        then obtain kvs where kvs: "k = JObject kvs" by (cases k) simp_all
        show ?thesis
        proof (cases "secret_keys (check_key m) kvs []")
          case (Inl e)
          with j c k kvs ok show ?thesis
            by (simp add: answers_def handle_save_credential_def)
        next
          case (Inr ks)
          show ?thesis
          proof (cases "check_object m c ks")
            case (Some e)
            with Inr j c k kvs ok show ?thesis
              by (simp add: answers_def handle_save_credential_def)
          next
            case None
            obtain r s1 where
              sc: "save_credential store ((defaults m)\<lparr>id' := c, keys := ks\<rparr>) s = (r, s1)"
              by (cases "save_credential store ((defaults m)\<lparr>id' := c, keys := ks\<rparr>) s")
            with None Inr j c k kvs ok show ?thesis
              by (cases r)
                 (simp_all add: answers_def handle_save_credential_def json_response_def
                                module_status_def)
          qed
        qed
      qed
    qed
  qed
  have c: "answers (handle_check_agent from_agent_path store request) s"
    if j: "json request = Inr (JObject b)" for b
  proof (cases "truthy (case map_of b ''agent_path'' of None \<Rightarrow> JNull | Some v \<Rightarrow> v)")
    case False
    with j show ?thesis
      by (simp add: answers_def handle_check_agent_def json_response_def module_status_def)
  next
    case True
    obtain q t where
      q: "check_agent_try from_agent_path store
            (case map_of b ''agent_path'' of None \<Rightarrow> JNull | Some v \<Rightarrow> v) s = (q, t)"
      by (cases "check_agent_try from_agent_path store
            (case map_of b ''agent_path'' of None \<Rightarrow> JNull | Some v \<Rightarrow> v) s")
    show ?thesis
    proof (cases q)
      case (Inl e)
      with j True q show ?thesis
        by (simp add: answers_def handle_check_agent_def json_response_def module_status_def)
    next
      case (Inr resp)
      with q have "status resp = 200"
        by (auto simp: check_agent_try_each split: prod.splits sum.splits)
      with Inr j True q show ?thesis
        by (simp add: answers_def handle_check_agent_def module_status_def)
    qed
  qed
  have e: "handle_save_credential m store request s = (Inl e, s) \<and>
           handle_check_agent from_agent_path store request s = (Inl e, s)"
    if "json request = Inl e" for e
    using that by (simp add: handle_save_credential_def handle_check_agent_def)
  have n: "handle_save_credential m store request s = (Inl (AttributeError v ''get''), s) \<and>
           handle_check_agent from_agent_path store request s = (Inl (AttributeError v ''get''), s)"
    if "json request = Inr v" and "\<not> is_dict v" for v
    using that by (cases v) (simp_all add: handle_save_credential_def handle_check_agent_def)
  have p2: ?G by (intro allI impI conjI g d)
  have p3: ?S by (intro allI impI conjI sv c)
  have p4: ?E by (intro allI impI e)
  have p5: ?N by (intro allI impI n; elim conjE; assumption)
  from l p2 p3 p4 p5 show ?thesis by (intro conjI)
qed



theorem handlers_answer_or_raise_witness:
  "match_info (path_request ''github'') ''credential_id'' = Some ''github'' \<and>
   json (path_request ''github'') =
     Inl (Exc ''JSONDecodeError'' ''Expecting value: line 1 column 1 (char 0)'') \<and>
   json (body_request (JObject [(''agent_path'', JStr ''exports/demo''),
                                (''credential_id'', JStr ''github''),
                                (''keys'', JObject [(''token'', JStr ''ghp_1'')])])) =
     Inr (JObject [(''agent_path'', JStr ''exports/demo''),
                   (''credential_id'', JStr ''github''),
                   (''keys'', JObject [(''token'', JStr ''ghp_1'')])]) \<and>
   json (body_request (JObject [(''credential_id'', JInt 123),
                                (''keys'', JObject [(''token'', JStr ''ghp_1'')])])) =
     Inr (JObject [(''credential_id'', JInt 123),
                   (''keys'', JObject [(''token'', JStr ''ghp_1'')])]) \<and>
   json (body_request (JList [])) = Inr (JList []) \<and> \<not> is_dict (JList []) \<and>
   answers (handle_list_credentials as_text dict_store (path_request ''github''))
     [(JStr ''github'', github ''ghp_1'')] \<and>
   answers (handle_get_credential as_text dict_store (path_request ''github''))
     [(JStr ''github'', github ''ghp_1'')] \<and>
   answers (handle_delete_credential dict_store (path_request ''github''))
     [(JStr ''github'', github ''ghp_1'')] \<and>
   answers (handle_save_credential str_id_models dict_store
              (body_request (JObject [(''agent_path'', JStr ''exports/demo''),
                                      (''credential_id'', JStr ''github''),
                                      (''keys'', JObject [(''token'', JStr ''ghp_1'')])])))
     [(JStr ''github'', github ''ghp_1'')] \<and>
   answers (handle_check_agent two_requirements dict_store
              (body_request (JObject [(''agent_path'', JStr ''exports/demo''),
                                      (''credential_id'', JStr ''github''),
                                      (''keys'', JObject [(''token'', JStr ''ghp_1'')])])))
     [(JStr ''github'', github ''ghp_1'')] \<and>
   \<not> answers (handle_save_credential str_id_models dict_store
                (body_request (JObject [(''credential_id'', JInt 123),
                                        (''keys'', JObject [(''token'', JStr ''ghp_1'')])])))
       [(JStr ''github'', github ''ghp_1'')] \<and>
   handle_check_agent two_requirements dict_store (path_request ''github'')
     [(JStr ''github'', github ''ghp_1'')] =
     (Inl (Exc ''JSONDecodeError'' ''Expecting value: line 1 column 1 (char 0)''),
      [(JStr ''github'', github ''ghp_1'')]) \<and>
   handle_check_agent two_requirements dict_store (body_request (JList []))
     [(JStr ''github'', github ''ghp_1'')] =
     (Inl (AttributeError (JList []) ''get''), [(JStr ''github'', github ''ghp_1'')])"
proof -
  let ?store = "dict_store ::
    (string, string, (json \<times> (string, string) CredentialObject) list) CredentialStore"
  let ?s = "[(JStr ''github'', github ''ghp_1'')]"
  let ?E = "Exc ''JSONDecodeError'' ''Expecting value: line 1 column 1 (char 0)''"
  let ?b = "[(''agent_path'', JStr ''exports/demo''), (''credential_id'', JStr ''github''),
             (''keys'', JObject [(''token'', JStr ''ghp_1'')])]"
  let ?c = "[(''credential_id'', JInt 123), (''keys'', JObject [(''token'', JStr ''ghp_1'')])]"
  have m: "match_info (path_request ''github'') ''credential_id'' = Some ''github''"
    by (simp add: path_request_def)
  have j1: "json (path_request ''github'') = Inl ?E"
    by (simp add: path_request_def)
  have j2: "json (body_request (JObject ?b)) = Inr (JObject ?b)"
    by (simp add: body_request_def)
  have j3: "json (body_request (JList [])) = Inr (JList [])"
    by (simp add: body_request_def)
  have j4: "json (body_request (JObject ?c)) = Inr (JObject ?c)"
    by (simp add: body_request_def)
  have nd: "\<not> is_dict (JList [])" by simp
  note p = handlers_answer_or_raise
    [where store = ?store and x = as_text and request = "path_request ''github''" and s = ?s
       and m = str_id_models and from_agent_path = two_requirements]
  note q = handlers_answer_or_raise
    [where store = ?store and x = as_text and request = "body_request (JObject ?b)" and s = ?s
       and m = str_id_models and from_agent_path = two_requirements]
  note w = handlers_answer_or_raise
    [where store = ?store and x = as_text and request = "body_request (JObject ?c)" and s = ?s
       and m = str_id_models and from_agent_path = two_requirements]
  note u = handlers_answer_or_raise
    [where store = ?store and x = as_text and request = "body_request (JList [])" and s = ?s
       and m = str_id_models and from_agent_path = two_requirements]
  have "\<exists>ids s1 rs s2. list_credentials ?store ?s = (Inr ids, s1) \<and>
          each (\<lambda>cid. get_credential ?store cid False) ids s1 = (Inr rs, s2)"
    by (simp add: dict_store_def)
  with conjunct1 [OF p]
  have a1: "answers (handle_list_credentials as_text ?store (path_request ''github'')) ?s"
    by (rule iffD2)
  note gd = conjunct1 [OF conjunct2 [OF p], rule_format, OF m]
  have "\<not> isl (fst (get_credential ?store (JStr ''github'') False ?s))"
    by (simp add: dict_store_def)
  with conjunct1 [OF gd]
  have a2: "answers (handle_get_credential as_text ?store (path_request ''github'')) ?s"
    by (rule iffD2)
  have "\<not> isl (fst (delete_credential ?store (JStr ''github'') ?s))"
    by (simp add: dict_store_def)
  with conjunct2 [OF gd]
  have a3: "answers (handle_delete_credential ?store (path_request ''github'')) ?s"
    by (rule iffD2)
  note sq = conjunct1 [OF conjunct2 [OF conjunct2 [OF q]], rule_format, OF j2]
  have a4: "answers (handle_save_credential str_id_models ?store (body_request (JObject ?b))) ?s"
    by (rule iffD2 [OF conjunct1 [OF sq]]) (simp add: str_id_models_def dict_store_def)
  have a5: "answers (handle_check_agent two_requirements ?store (body_request (JObject ?b))) ?s"
    by (rule conjunct2 [OF sq])
  note sw = conjunct1 [OF conjunct2 [OF conjunct2 [OF w]], rule_format, OF j4]
  have a6: "\<not> answers (handle_save_credential str_id_models ?store
                         (body_request (JObject ?c))) ?s"
    unfolding conjunct1 [OF sw] by (simp add: str_id_models_def)
  note pe = conjunct1 [OF conjunct2 [OF conjunct2 [OF conjunct2 [OF p]]], rule_format, OF j1]
  have a7: "handle_check_agent two_requirements ?store (path_request ''github'') ?s = (Inl ?E, ?s)"
    by (rule conjunct2 [OF pe])
  note un = conjunct2 [OF conjunct2 [OF conjunct2 [OF conjunct2 [OF u]]], rule_format,
                        OF conjI [OF j3 nd]]
  have a8: "handle_check_agent two_requirements ?store (body_request (JList [])) ?s =
              (Inl (AttributeError (JList []) ''get''), ?s)"
    by (rule conjunct2 [OF un])
  from m j1 j2 j4 j3 nd a1 a2 a3 a4 a5 a6 a7 a8 show ?thesis by (intro conjI)
qed

text \<open>
  The handlers do not always return a response: on a body that is not JSON, and on the
  JSON body \<^verbatim>\<open>[]\<close>, \<open>handle_save_credential\<close> raises.
\<close>

theorem unparsed_body_raises:
  "handle_save_credential str_id_models dict_store
     \<lparr>match_info = Map.empty,
      json = Inl (Exc ''JSONDecodeError'' ''Expecting value: line 1 column 1 (char 0)'')\<rparr> [] =
     (Inl (Exc ''JSONDecodeError'' ''Expecting value: line 1 column 1 (char 0)''), []) \<and>
   \<not> answers (handle_save_credential str_id_models dict_store
     \<lparr>match_info = Map.empty,
      json = Inl (Exc ''JSONDecodeError'' ''Expecting value: line 1 column 1 (char 0)'')\<rparr>) [] \<and>
   handle_save_credential str_id_models dict_store (body_request (JList [])) [] =
     (Inl (Exc ''AttributeError'' (CHR 0x27 # ''list'' @ CHR 0x27 #
        '' object has no attribute '' @ CHR 0x27 # ''get'' @ [CHR 0x27])), []) \<and>
   \<not> answers (handle_save_credential str_id_models dict_store (body_request (JList []))) []"
  by (simp add: handle_save_credential_def body_request_def AttributeError_def answers_def)

text \<open>
  C7. POST /api/credentials/check-agent with a JSON body that is a dict: if "agent_path" is
  absent or falsy the handler answers 400 with the error "agent_path is required". Otherwise
  it builds the session with \<^verbatim>\<open>missing_only=False\<close>; if that raises, or a call to
  \<open>is_available\<close> for a requirement raises, it answers 500 with the string of the
  exception as "error"; otherwise it answers 200 and "required" has exactly one entry for
  each element of the missing list of the session, in order.
\<close>

theorem handle_check_agent_outcomes:
  assumes "json request = Inr (JObject b)"
  shows "if (case map_of b ''agent_path'' of None \<Rightarrow> True | Some p \<Rightarrow> \<not> truthy p)
         then handle_check_agent from_agent_path store request s =
                (Inr \<lparr>status = 400, body = JObject [(''error'', JStr ''agent_path is required'')]\<rparr>, s)
         else \<exists>p. map_of b ''agent_path'' = Some p \<and>
                (case from_agent_path p False s of
                   (Inl e, s1) \<Rightarrow>
                     handle_check_agent from_agent_path store request s =
                       (Inr \<lparr>status = 500, body = JObject [(''error'', JStr (exc_str e))]\<rparr>, s1)
                 | (Inr session, s1) \<Rightarrow>
                     (case each (is_available store) (map cred_id (missing session)) s1 of
                        (Inl e, s2) \<Rightarrow>
                          handle_check_agent from_agent_path store request s =
                            (Inr \<lparr>status = 500, body = JObject [(''error'', JStr (exc_str e))]\<rparr>,
                             s2)
                      | (Inr avs, s2) \<Rightarrow>
                          (\<exists>required.
                             handle_check_agent from_agent_path store request s =
                               (Inr \<lparr>status = 200,
                                     body = JObject [(''required'', JList required)]\<rparr>, s2) \<and>
                             required = map2 required_entry (missing session) avs \<and>
                             length required = length (missing session))))"
proof (cases "map_of b ''agent_path''")
  case None
  with assms show ?thesis by (simp add: handle_check_agent_def json_response_def)
next
  case (Some p)
  show ?thesis
  proof (cases "truthy p")
    case False
    with assms Some show ?thesis by (simp add: handle_check_agent_def json_response_def)
  next
    case True
    have h: "handle_check_agent from_agent_path store request s =
               (case check_agent_try from_agent_path store p s of
                  (Inl e, s') \<Rightarrow>
                    (Inr (json_response (JObject [(''error'', JStr (exc_str e))]) 500), s')
                | (Inr resp, s') \<Rightarrow> (Inr resp, s'))"
      using assms Some True by (simp add: handle_check_agent_def)
    obtain r s1 where f: "from_agent_path p False s = (r, s1)"
      by (cases "from_agent_path p False s")
    show ?thesis
    proof (cases r)
      case (Inl e)
      with f h Some True show ?thesis by (simp add: check_agent_try_def json_response_def)
    next
      case (Inr session)
      obtain q s2 where a: "each (is_available store) (map cred_id (missing session)) s1 = (q, s2)"
        by (cases "each (is_available store) (map cred_id (missing session)) s1")
      show ?thesis
      proof (cases q)
        case (Inl e)
        with a f h Some True \<open>r = Inr session\<close> show ?thesis
          by (simp add: check_agent_try_def required_loop_each json_response_def)
      next
        case avs: (Inr avs)
        with a have "length avs = length (missing session)"
          using each_length [of "is_available store" "map cred_id (missing session)" s1 avs s2]
          by simp
        with avs a f h Some True \<open>r = Inr session\<close> show ?thesis
          by (simp add: check_agent_try_def required_loop_each json_response_def)
      qed
    qed
  qed
qed

theorem handle_check_agent_outcomes_witness:
  "json (body_request (JObject [(''agent_path'', JStr ''exports/demo'')])) =
     Inr (JObject [(''agent_path'', JStr ''exports/demo'')]) \<and>
   handle_check_agent two_requirements dict_store
     (body_request (JObject [(''agent_path'', JStr ''exports/demo'')]))
     [(JStr ''github'', github ''ghp_1'')] =
     (Inr \<lparr>status = 200,
           body = JObject [(''required'',
             JList [required_entry (requirement (JStr ''github_token'') (JStr ''github''))
                      (JBool True),
                    required_entry (requirement (JStr ''slack'') JNull) (JBool False)])]\<rparr>,
      [(JStr ''github'', github ''ghp_1'')]) \<and>
   handle_check_agent no_agent dict_store
     (body_request (JObject [(''agent_path'', JStr ''exports/demo'')]))
     [(JStr ''github'', github ''ghp_1'')] =
     (Inr \<lparr>status = 500, body = JObject [(''error'', JStr ''agent.json not found'')]\<rparr>,
      [(JStr ''github'', github ''ghp_1'')])"
proof -
  let ?b = "[(''agent_path'', JStr ''exports/demo'')]"
  let ?s = "[(JStr ''github'', github ''ghp_1'')]"
  have h: "json (body_request (JObject ?b)) = Inr (JObject ?b)"
    by (simp add: body_request_def)
  have avs: "each (is_available dict_store)
               (map cred_id [requirement (JStr ''github_token'') (JStr ''github''),
                             requirement (JStr ''slack'') JNull]) ?s =
               (Inr [JBool True, JBool False], ?s)"
    by (simp add: dict_store_def cred_id_def requirement_def)
  note ok = handle_check_agent_outcomes
    [of "body_request (JObject ?b)" ?b two_requirements dict_store ?s, OF h]
  note ko = handle_check_agent_outcomes
    [of "body_request (JObject ?b)" ?b no_agent dict_store ?s, OF h]
  from ok avs have a: "handle_check_agent two_requirements dict_store
     (body_request (JObject ?b)) ?s =
     (Inr \<lparr>status = 200,
           body = JObject [(''required'',
             JList [required_entry (requirement (JStr ''github_token'') (JStr ''github''))
                      (JBool True),
                    required_entry (requirement (JStr ''slack'') JNull) (JBool False)])]\<rparr>, ?s)"
    by (simp add: two_requirements_def del: each.simps)
  from ko have b: "handle_check_agent no_agent dict_store (body_request (JObject ?b)) ?s =
     (Inr \<lparr>status = 500, body = JObject [(''error'', JStr ''agent.json not found'')]\<rparr>, ?s)"
    by (simp add: no_agent_def)
  from h a b show ?thesis by (intro conjI)
qed

text \<open>
  C8. When POST /api/credentials/check-agent answers with a "required" list, the list has
  one entry per requirement of the session (built with \<^verbatim>\<open>missing_only=False\<close>), and in
  the entry of a requirement the field "credential_id" is the credential_id of the
  requirement when that is truthy and its credential_name otherwise, and the field
  "available" is what \<open>is_available\<close> returned for that same resolved id, the calls being
  made in the order of the list.
\<close>

theorem required_entry_id_and_availability:
  assumes "handle_check_agent from_agent_path store request s = (Inr resp, s')"
      and "field (body resp) ''required'' = Some (JList entries)"
  shows "\<exists>p session s1 avs.
           from_agent_path p False s = (Inr session, s1) \<and>
           each (is_available store)
             (map (\<lambda>mc. if truthy (credential_id mc) then credential_id mc
                         else credential_name mc) (missing session)) s1 = (Inr avs, s') \<and>
           length entries = length (missing session) \<and>
           length avs = length (missing session) \<and>
           (\<forall>i < length entries.
              field (entries ! i) ''credential_id'' =
                Some (if truthy (credential_id (missing session ! i))
                      then credential_id (missing session ! i)
                      else credential_name (missing session ! i)) \<and>
              field (entries ! i) ''available'' = Some (avs ! i))"
proof (cases "json request")
  case (Inl e)
  with assms(1) show ?thesis by (simp add: handle_check_agent_def)
next
  case body: (Inr body')
  show ?thesis
  proof (cases "py_get body' ''agent_path''")
    case (Inl e)
    with assms(1) body show ?thesis by (simp add: handle_check_agent_def)
  next
    case p: (Inr p)
    show ?thesis
    proof (cases "truthy p")
      case False
      with assms body p show ?thesis
        by (auto simp: handle_check_agent_def json_response_def field_def)
    next
      case True
      obtain r t where c: "check_agent_try from_agent_path store p s = (r, t)"
        by (cases "check_agent_try from_agent_path store p s")
      show ?thesis
      proof (cases r)
        case (Inl e)
        with assms body p True c show ?thesis
          by (auto simp: handle_check_agent_def json_response_def field_def)
      next
        case (Inr resp')
        with assms(1) body p True c have eq: "resp' = resp" "t = s'"
          by (simp_all add: handle_check_agent_def)
        obtain q s1 where f: "from_agent_path p False s = (q, s1)"
          by (cases "from_agent_path p False s")
        from c Inr f obtain session where q: "q = Inr session"
          by (cases q) (simp_all add: check_agent_try_each)
        obtain w s2 where a: "each (is_available store) (map cred_id (missing session)) s1 = (w, s2)"
          by (cases "each (is_available store) (map cred_id (missing session)) s1")
        from c Inr f q a obtain avs where w: "w = Inr avs"
          by (cases w) (simp_all add: check_agent_try_each)
        from c Inr f q a w eq
        have resp: "resp = \<lparr>status = 200,
                     body = JObject [(''required'',
                       JList (map2 required_entry (missing session) avs))]\<rparr>" and s2: "s2 = s'"
          by (simp_all add: check_agent_try_each)
        from a w have len: "length avs = length (missing session)"
          using each_length [of "is_available store" "map cred_id (missing session)" s1 avs s2]
          by simp
        from resp assms(2) have entries: "entries = map2 required_entry (missing session) avs"
          by (simp add: field_def)
        have ids: "map cred_id (missing session) =
                   map (\<lambda>mc. if truthy (credential_id mc) then credential_id mc
                              else credential_name mc) (missing session)"
          by (simp add: cred_id_def)
        have nth: "field (entries ! i) ''credential_id'' =
                Some (if truthy (credential_id (missing session ! i))
                      then credential_id (missing session ! i)
                      else credential_name (missing session ! i)) \<and>
              field (entries ! i) ''available'' = Some (avs ! i)" if "i < length entries" for i
        proof -
          from that entries len have "entries ! i = required_entry (missing session ! i) (avs ! i)"
            by simp
          with field_required_entry [of "missing session ! i" "avs ! i"] show ?thesis
            by (simp add: cred_id_def)
        qed
        from entries len have l2: "length entries = length (missing session)" by simp
        from f q a w s2 ids have
          "from_agent_path p False s = (Inr session, s1)"
          "each (is_available store)
             (map (\<lambda>mc. if truthy (credential_id mc) then credential_id mc
                         else credential_name mc) (missing session)) s1 = (Inr avs, s')"
          by simp_all
        with l2 len nth show ?thesis by blast
      qed
    qed
  qed
qed

theorem required_entry_id_and_availability_witness:
  "handle_check_agent two_requirements dict_store
     (body_request (JObject [(''agent_path'', JStr ''exports/demo'')]))
     [(JStr ''github'', github ''ghp_1'')] =
     (Inr \<lparr>status = 200,
           body = JObject [(''required'',
             JList [required_entry (requirement (JStr ''github_token'') (JStr ''github''))
                      (JBool True),
                    required_entry (requirement (JStr ''slack'') JNull) (JBool False)])]\<rparr>,
      [(JStr ''github'', github ''ghp_1'')]) \<and>
   field (body \<lparr>status = 200,
           body = JObject [(''required'',
             JList [required_entry (requirement (JStr ''github_token'') (JStr ''github''))
                      (JBool True),
                    required_entry (requirement (JStr ''slack'') JNull) (JBool False)])]\<rparr>)
     ''required'' =
     Some (JList [required_entry (requirement (JStr ''github_token'') (JStr ''github''))
                    (JBool True),
                  required_entry (requirement (JStr ''slack'') JNull) (JBool False)]) \<and>
   field ([required_entry (requirement (JStr ''github_token'') (JStr ''github'')) (JBool True),
           required_entry (requirement (JStr ''slack'') JNull) (JBool False)] ! 1)
     ''credential_id'' = Some (JStr ''slack'') \<and>
   field ([required_entry (requirement (JStr ''github_token'') (JStr ''github'')) (JBool True),
           required_entry (requirement (JStr ''slack'') JNull) (JBool False)] ! 1)
     ''available'' = Some (JBool False)"
proof -
  let ?req = "body_request (JObject [(''agent_path'', JStr ''exports/demo'')])"
  let ?s = "[(JStr ''github'', github ''ghp_1'')]"
  let ?mcs = "[requirement (JStr ''github_token'') (JStr ''github''),
               requirement (JStr ''slack'') JNull]"
  let ?E = "[required_entry (requirement (JStr ''github_token'') (JStr ''github'')) (JBool True),
             required_entry (requirement (JStr ''slack'') JNull) (JBool False)]"
  let ?resp = "\<lparr>status = 200, body = JObject [(''required'', JList ?E)]\<rparr>"
  have h1: "handle_check_agent two_requirements dict_store ?req ?s = (Inr ?resp, ?s)"
    by (simp add: handle_check_agent_def check_agent_try_def body_request_def
          two_requirements_def dict_store_def cred_id_def requirement_def json_response_def)
  have h2: "field (body ?resp) ''required'' = Some (JList ?E)"
    by (simp add: field_def)
  from required_entry_id_and_availability
         [of two_requirements dict_store ?req ?s ?resp ?s ?E, OF h1 h2]
  obtain p session s1 avs where
    f: "two_requirements p False ?s = (Inr session, s1)" and
    a: "each (is_available dict_store)
          (map (\<lambda>mc. if truthy (credential_id mc) then credential_id mc
                      else credential_name mc) (missing session)) s1 = (Inr avs, ?s)" and
    n: "\<forall>i < length ?E.
          field (?E ! i) ''credential_id'' =
            Some (if truthy (credential_id (missing session ! i))
                  then credential_id (missing session ! i)
                  else credential_name (missing session ! i)) \<and>
          field (?E ! i) ''available'' = Some (avs ! i)"
    by blast
  from f have session: "missing session = ?mcs" and s1: "s1 = ?s"
    by (auto simp: two_requirements_def)
  from a session s1 have avs: "avs = [JBool True, JBool False]"
    by (simp add: dict_store_def requirement_def)
  have "field (?E ! 1) ''credential_id'' =
            Some (if truthy (credential_id (missing session ! 1))
                  then credential_id (missing session ! 1)
                  else credential_name (missing session ! 1)) \<and>
          field (?E ! 1) ''available'' = Some (avs ! 1)"
    using spec [OF n, of 1] by simp
  with session avs have
    "field (?E ! 1) ''credential_id'' = Some (JStr ''slack'')"
    "field (?E ! 1) ''available'' = Some (JBool False)"
    by (simp_all add: requirement_def)
  with h1 h2 show ?thesis by (intro conjI)
qed

text \<open>
  C9. Whenever POST /api/credentials answers 400, the store is in the state it was in, and
  the handler has made no call to the store at all (so none to \<open>save_credential\<close>).
\<close>

theorem rejected_save_leaves_store:
  assumes "handle_save_credential m store request s = (Inr resp, s')"
      and "status resp = 400"
  shows "s' = s \<and>
         snd (handle_save_credential m (recording store) request (s, [])) = (s, [])"
proof -
  from assms have "s' = s"
    by (auto simp: handle_save_credential_def json_response_def
             split: sum.splits prod.splits option.splits if_splits)
  moreover from assms
  have "snd (handle_save_credential m (recording store) request (s, [])) = (s, [])"
    by (auto simp: handle_save_credential_def json_response_def
             split: sum.splits prod.splits option.splits if_splits)
  ultimately show ?thesis by simp
qed

theorem rejected_save_leaves_store_witness:
  "handle_save_credential str_id_models dict_store
     (body_request (JObject [(''credential_id'', JStr []),
                             (''keys'', JObject [(''token'', JStr ''ghp_1'')])]))
     [(JStr ''github'', github ''ghp_1'')] =
     (Inr \<lparr>status = 400,
           body = JObject [(''error'', JStr ''credential_id and keys are required'')]\<rparr>,
      [(JStr ''github'', github ''ghp_1'')]) \<and>
   status \<lparr>status = 400,
           body = JObject [(''error'', JStr ''credential_id and keys are required'')]\<rparr> = 400 \<and>
   snd (handle_save_credential str_id_models (recording dict_store)
     (body_request (JObject [(''credential_id'', JStr []),
                             (''keys'', JObject [(''token'', JStr ''ghp_1'')])]))
     ([(JStr ''github'', github ''ghp_1'')], [])) = ([(JStr ''github'', github ''ghp_1'')], [])"
proof -
  let ?req = "body_request (JObject [(''credential_id'', JStr []),
                             (''keys'', JObject [(''token'', JStr ''ghp_1'')])])"
  let ?resp = "\<lparr>status = 400,
           body = JObject [(''error'', JStr ''credential_id and keys are required'')]\<rparr>"
  have h1: "handle_save_credential str_id_models dict_store ?req
              [(JStr ''github'', github ''ghp_1'')] =
     (Inr ?resp, [(JStr ''github'', github ''ghp_1'')])"
    by (simp add: handle_save_credential_def body_request_def json_response_def)
  have h2: "status ?resp = 400" by simp
  from rejected_save_leaves_store [OF h1 h2] h1 h2 show ?thesis by simp
qed

text \<open>
  C10. The handlers of GET /api/credentials and GET /api/credentials/{credential_id} call
  the store through \<open>list_credentials\<close> and through \<open>get_credential\<close> with
  \<^verbatim>\<open>refresh_if_needed=False\<close> only: no lookup asks for a refresh and no saving or
  deleting method is called. So with a store whose listing and whose lookup without
  refresh leave its state alone, both requests leave the state of the store as it was.
\<close>

theorem metadata_reads_do_not_refresh:
  "list_all plain_read
     (snd (snd (handle_list_credentials x (recording store) request (s, [])))) \<and>
   list_all plain_read
     (snd (snd (handle_get_credential x (recording store) request (s, [])))) \<and>
   ((\<forall>t. snd (list_credentials store t) = t) \<and>
    (\<forall>cid t. snd (get_credential store cid False t) = t) \<longrightarrow>
      snd (handle_list_credentials x store request s) = s \<and>
      snd (handle_get_credential x store request s) = s)"
proof -
  have a: "list_all plain_read
     (snd (snd (handle_list_credentials x (recording store) request (s, []))))"
  proof -
    obtain r s1 where l: "list_credentials store s = (r, s1)"
      by (cases "list_credentials store s")
    then have rec: "list_credentials (recording store) (s, []) = (r, (s1, [ListCredentials]))"
      by (simp add: recording_def logged_def)
    have ok: "list_all plain_read [ListCredentials :: ('a, 'b) call]" by simp
    show ?thesis
    proof (cases r)
      case (Inl e)
      with rec show ?thesis by (simp add: handle_list_credentials_def)
    next
      case (Inr ids)
      with rec list_loop_recording [OF ok, of x store ids "[]" s1] show ?thesis
        by (auto simp: handle_list_credentials_def split: prod.splits sum.splits)
    qed
  qed
  have b: "list_all plain_read
     (snd (snd (handle_get_credential x (recording store) request (s, []))))"
    by (simp add: handle_get_credential_def recording_def logged_def
             split: option.splits prod.splits sum.splits)
  have c: "snd (handle_list_credentials x store request s) = s \<and>
           snd (handle_get_credential x store request s) = s"
    if l: "\<forall>t. snd (list_credentials store t) = t"
    and g: "\<forall>cid t. snd (get_credential store cid False t) = t"
  proof
    obtain r s1 where r: "list_credentials store s = (r, s1)"
      by (cases "list_credentials store s")
    with l have \<open>s1 = s\<close> by (metis snd_conv)
    have loop: "list_loop x store ids [] s = (q, s2) \<Longrightarrow> s2 = s" for ids q s2
      using list_loop_state [OF g, of x ids "[]" s] by simp
    from r \<open>s1 = s\<close> show "snd (handle_list_credentials x store request s) = s"
      by (cases r) (auto simp: handle_list_credentials_def split: prod.splits sum.splits dest: loop)
    show "snd (handle_get_credential x store request s) = s"
    proof (cases "match_info request ''credential_id''")
      case None
      then show ?thesis by (simp add: handle_get_credential_def)
    next
      case (Some cid)
      obtain q s2 where q: "get_credential store (JStr cid) False s = (q, s2)"
        by (cases "get_credential store (JStr cid) False s")
      with g have "s2 = s" by (metis snd_conv)
      with q Some show ?thesis
        by (simp add: handle_get_credential_def split: sum.splits option.splits)
    qed
  qed
  from a b c show ?thesis by blast
qed

theorem metadata_reads_do_not_refresh_witness:
  "(\<forall>t :: (json \<times> (string, string) CredentialObject) list.
      snd (list_credentials dict_store t) = t) \<and>
   (\<forall>cid (t :: (json \<times> (string, string) CredentialObject) list).
      snd (get_credential dict_store cid False t) = t) \<and>
   snd (handle_list_credentials as_text dict_store (path_request [])
          [(JStr ''github'', github ''ghp_1'')]) = [(JStr ''github'', github ''ghp_1'')] \<and>
   snd (handle_get_credential as_text dict_store (path_request ''github'')
          [(JStr ''github'', github ''ghp_1'')]) = [(JStr ''github'', github ''ghp_1'')] \<and>
   snd (snd (handle_list_credentials as_text (recording dict_store) (path_request [])
          ([(JStr ''github'', github ''ghp_1'')], []))) =
     [ListCredentials, GetCredential (JStr ''github'') False]"
proof -
  have h1: "\<forall>t :: (json \<times> (string, string) CredentialObject) list.
      snd (list_credentials dict_store t) = t"
    by (simp add: dict_store_def)
  have h2: "\<forall>cid (t :: (json \<times> (string, string) CredentialObject) list).
      snd (get_credential dict_store cid False t) = t"
    by (simp add: dict_store_def)
  have calls: "snd (snd (handle_list_credentials as_text (recording dict_store) (path_request [])
          ([(JStr ''github'', github ''ghp_1'')], []))) =
     [ListCredentials, GetCredential (JStr ''github'') False]"
    by (simp add: handle_list_credentials_def recording_def logged_def dict_store_def)
  from metadata_reads_do_not_refresh
         [of as_text dict_store "path_request []" "[(JStr ''github'', github ''ghp_1'')]"]
       metadata_reads_do_not_refresh
         [of as_text dict_store "path_request ''github''" "[(JStr ''github'', github ''ghp_1'')]"]
       h1 h2 calls
  show ?thesis by simp
qed

end
